theory Spec2Isabelle
  imports Main "HOL-Library.Word"
begin

section \<open>JavaScript strings\<close>

text \<open>
  A JavaScript string is a sequence of 16-bit code units; \<open>length\<close> counts code units.
  ASCII literals of the source are written \<open>ascii ''...''\<close>; the bullet character
  U+2022 and the line feed are single code units.
\<close>

type_synonym jschar = "16 word"
type_synonym jsstring = "jschar list"

definition ascii :: "string \<Rightarrow> jsstring" where
  "ascii s = map of_char s"

abbreviation LF :: jschar where
  "LF \<equiv> 0x0A"

abbreviation BULLET :: jschar where
  "BULLET \<equiv> 0x2022"

text \<open>\<open>s.startsWith(p)\<close>.\<close>

definition startsWith :: "jsstring \<Rightarrow> jsstring \<Rightarrow> bool" where
  "startsWith s p = (take (length p) s = p)"

text \<open>\<open>s.split(c)\<close> for a separator of one code unit: the result is never empty.\<close>

fun split_str :: "jschar \<Rightarrow> jsstring \<Rightarrow> jsstring list" where
  "split_str c [] = [[]]"
| "split_str c (x # xs) =
     (if x = c then [] # split_str c xs
      else (case split_str c xs of [] \<Rightarrow> [[x]] | l # ls \<Rightarrow> (x # l) # ls))"

text \<open>\<open>lines.join(sep)\<close>.\<close>

fun join_str :: "jsstring \<Rightarrow> jsstring list \<Rightarrow> jsstring" where
  "join_str sep [] = []"
| "join_str sep [l] = l"
| "join_str sep (l # m # ls) = l @ sep @ join_str sep (m # ls)"

text \<open>
  \<open>s.trim()\<close> removes leading and trailing WhiteSpace and LineTerminator code units
  (ECMAScript: TAB, LF, VT, FF, CR, SP, NBSP, U+1680, U+2000..U+200A, U+2028, U+2029,
  U+202F, U+205F, U+3000, U+FEFF).
\<close>

definition is_ws :: "jschar \<Rightarrow> bool" where
  "is_ws c = (c = 0x09 \<or> c = 0x0A \<or> c = 0x0B \<or> c = 0x0C \<or> c = 0x0D \<or> c = 0x20
     \<or> c = 0xA0 \<or> c = 0x1680 \<or> (0x2000 \<le> c \<and> c \<le> 0x200A) \<or> c = 0x2028
     \<or> c = 0x2029 \<or> c = 0x202F \<or> c = 0x205F \<or> c = 0x3000 \<or> c = 0xFEFF)"

definition trim :: "jsstring \<Rightarrow> jsstring" where
  "trim s = rev (dropWhile is_ws (rev (dropWhile is_ws s)))"

text \<open>\<open>s.replace(/\n/g, '<br/>')\<close>: every line feed becomes the break tag.\<close>

definition replace_newlines :: "jsstring \<Rightarrow> jsstring" where
  "replace_newlines s = concat (map (\<lambda>c. if c = LF then ascii ''<br/>'' else [c]) s)"

section \<open>Values and platform functions\<close>

text \<open>
  What \<open>JSON.parse\<close> can return. Numbers are IEEE doubles; no function of this
  program inspects one, so their type is left abstract. An object is the list of its own
  properties, each key once.
\<close>

typedecl jsnumber

datatype json =
    JNull
  | JBool bool
  | JNum jsnumber
  | JStr jsstring
  | JArr "json list"
  | JObj "(jsstring \<times> json) list"

text \<open>The editor is a DOM subtree; element names are stored in lower case.\<close>

type_synonym attrs = "(jsstring \<times> jsstring) list"

datatype node =
    Element jsstring attrs "node list"
  | TextNode jsstring
  | Comment jsstring

record sel =
  isCollapsed :: bool
  selected :: jsstring

text \<open>
  The document as the formatting code sees it: the editor element's children, what
  \<open>window.getSelection()\<close> returns (\<open>None\<close> for \<open>null\<close>), the
  \<open>styleWithCSS\<close> mode and the focus.
\<close>

record editor_doc =
  dom :: "node list"
  selection :: "sel option"
  styleWithCSS :: bool
  focused :: bool

datatype command =
    InsertUnorderedList
  | RemoveFormat
  | InsertText jsstring
  | InsertHTML jsstring

text \<open>
  Everything the program calls but does not define: the language's built-ins, the
  lz-string library and the browser. A function that can throw, reject or return
  \<open>null\<close> has an \<open>option\<close> result, \<open>None\<close> for that outcome.
  \<open>toStringJS\<close> is the string conversion of a template literal and \<open>gtZero\<close>
  the comparison \<open>v > 0\<close>, on values where they depend on the value's own
  properties. \<open>toBase64\<close> is the promise of the helper of that name (image load,
  canvas, \<open>toDataURL\<close>), \<open>None\<close> when it rejects.
\<close>

record platform =
  encodeURIComponent :: "jsstring \<Rightarrow> jsstring option"
  decodeURIComponent :: "jsstring \<Rightarrow> jsstring option"
  compressToEncodedURIComponent :: "jsstring \<Rightarrow> jsstring"
  decompressFromEncodedURIComponent :: "jsstring \<Rightarrow> jsstring option"
  JSON_stringify :: "json \<Rightarrow> jsstring"
  JSON_parse :: "jsstring \<Rightarrow> json option"
  toStringJS :: "json \<Rightarrow> jsstring option"
  gtZero :: "json \<Rightarrow> bool option"
  toUpperCase :: "jsstring \<Rightarrow> jsstring"
  toLowerCase :: "jsstring \<Rightarrow> jsstring"
  toBase64 :: "jsstring \<Rightarrow> jsstring option"
  innerText_of :: "node list \<Rightarrow> jsstring"
  innerHTML_of :: "node list \<Rightarrow> jsstring"
  parseHTML :: "jsstring \<Rightarrow> node list"
  execCommand :: "command \<Rightarrow> editor_doc \<Rightarrow> editor_doc"
  cleanHTML :: "jsstring \<Rightarrow> jsstring"

text \<open>Truthiness of a string or \<open>null\<close>.\<close>

fun truthy :: "jsstring option \<Rightarrow> bool" where
  "truthy None = False"
| "truthy (Some s) = (s \<noteq> [])"

text \<open>\<open>`${v}`\<close> for a parsed value.\<close>

definition template :: "platform \<Rightarrow> json \<Rightarrow> jsstring option" where
  "template pf v =
     (case v of
        JStr s \<Rightarrow> Some s
      | JNull \<Rightarrow> Some (ascii ''null'')
      | JBool b \<Rightarrow> Some (if b then ascii ''true'' else ascii ''false'')
      | _ \<Rightarrow> toStringJS pf v)"

section \<open>The transfer payload\<close>

text \<open>\<open>interface SyncData { t: string; i?: string[] }\<close>; \<open>None\<close> is an absent \<open>i\<close>.\<close>

record SyncData =
  t :: jsstring
  i :: "jsstring list option"

text \<open>The object as a JSON value: an undefined property is left out.\<close>

definition toJson :: "SyncData \<Rightarrow> json" where
  "toJson d =
     JObj ((ascii ''t'', JStr (t d)) #
           (case i d of None \<Rightarrow> [] | Some imgs \<Rightarrow> [(ascii ''i'', JArr (map JStr imgs))]))"

abbreviation HASH :: jschar where
  "HASH \<equiv> 0x23"

text \<open>\<open>window.location.href.split('#')[0]\<close>.\<close>

definition baseUrl :: "jsstring \<Rightarrow> jsstring" where
  "baseUrl href = (case split_str HASH href of [] \<Rightarrow> [] | b # _ \<Rightarrow> b)"

text \<open>
  \<open>window.location.hash\<close> of a page opened at \<open>url\<close>: the fragment with its
  \<open>#\<close>, or the empty string when the fragment is empty.
\<close>

definition location_hash :: "jsstring \<Rightarrow> jsstring" where
  "location_hash url =
     (let f = dropWhile (\<lambda>c. c \<noteq> HASH) url in if length f \<le> 1 then [] else f)"

section \<open>The sync encoder (QRCodeModal)\<close>

record sync_base =
  syncUrl :: jsstring
  isTooLong :: bool

record sync_split = sync_base +
  hasImagesError :: bool

record sync_html = sync_base +
  errorMsg :: jsstring

text \<open>What the modal renders in place of the code.\<close>

datatype qr_view =
    NotRendered
  | TooLargePanel
  | QRCode jsstring bool

text \<open>
  src/unnamed/part\_000, lines 16-23: the plain-text modal. \<open>encodeURIComponent\<close>
  throws on a lone surrogate; the exception leaves the component (\<open>None\<close>).
\<close>

definition getSyncUrl :: "platform \<Rightarrow> jsstring \<Rightarrow> jsstring \<Rightarrow> jsstring option" where
  "getSyncUrl pf href c =
     (case encodeURIComponent pf c of
        None \<Rightarrow> None
      | Some encodedContent \<Rightarrow> Some (baseUrl href @ ascii ''#note='' @ encodedContent))"

definition sync_plain :: "platform \<Rightarrow> jsstring \<Rightarrow> jsstring \<Rightarrow> sync_base option" where
  "sync_plain pf href c =
     (case getSyncUrl pf href c of
        None \<Rightarrow> None
      | Some u \<Rightarrow> Some \<lparr>syncUrl = u, isTooLong = (length u > 2000)\<rparr>)"

definition QRCodeModal_plain :: "platform \<Rightarrow> bool \<Rightarrow> jsstring \<Rightarrow> jsstring \<Rightarrow> qr_view option" where
  "QRCodeModal_plain pf isOpen href c =
     (if \<not> isOpen then Some NotRendered
      else (case sync_plain pf href c of
              None \<Rightarrow> None
            | Some r \<Rightarrow> Some (if isTooLong r then TooLargePanel else QRCode (syncUrl r) False)))"

text \<open>
  \<open>`${baseUrl}#data=${LZString.compressToEncodedURIComponent(JSON.stringify(data))}`\<close>,
  the URL both compressed modals build (lines 21-25 and 34-36 of
  src/components/QRCodeModal.tsx, lines 21-25 of src/unnamed/part\_001).
\<close>

definition dataUrl :: "platform \<Rightarrow> jsstring \<Rightarrow> SyncData \<Rightarrow> jsstring" where
  "dataUrl pf href d =
     baseUrl href @ ascii ''#data='' @
     compressToEncodedURIComponent pf (JSON_stringify pf (toJson d))"

text \<open>
  src/components/QRCodeModal.tsx, lines 20-45: the memoised computation of the modal for
  text and images: the full URL, else the text-only URL when there are images, else
  nothing.
\<close>

definition sync_split :: "platform \<Rightarrow> jsstring \<Rightarrow> SyncData \<Rightarrow> sync_split" where
  "sync_split pf href d =
     (let fullUrl = dataUrl pf href d in
      if length fullUrl < 2200
      then \<lparr>syncUrl = fullUrl, isTooLong = False, hasImagesError = False\<rparr>
      else if (case i d of None \<Rightarrow> False | Some imgs \<Rightarrow> length imgs > 0)
              \<and> length (dataUrl pf href \<lparr>t = t d, i = None\<rparr>) < 2200
      then \<lparr>syncUrl = dataUrl pf href \<lparr>t = t d, i = None\<rparr>,
            isTooLong = False, hasImagesError = True\<rparr>
      else \<lparr>syncUrl = [], isTooLong = True, hasImagesError = False\<rparr>)"

text \<open>Lines 17-18 and 62-91: nothing when closed, else the panel or the code.\<close>

definition QRCodeModal :: "platform \<Rightarrow> bool \<Rightarrow> jsstring \<Rightarrow> SyncData \<Rightarrow> qr_view" where
  "QRCodeModal pf isOpen href d =
     (if \<not> isOpen then NotRendered
      else let r = sync_split pf href d
           in if isTooLong r then TooLargePanel else QRCode (syncUrl r) (hasImagesError r))"

text \<open>src/unnamed/part\_001, lines 20-41: the modal for the unified HTML payload.\<close>

definition sync_html :: "platform \<Rightarrow> jsstring \<Rightarrow> SyncData \<Rightarrow> sync_html" where
  "sync_html pf href d =
     (let url = dataUrl pf href d in
      if length url < 2300
      then \<lparr>syncUrl = url, isTooLong = False, errorMsg = []\<rparr>
      else \<lparr>syncUrl = [], isTooLong = True,
            errorMsg = ascii ''Content is still too large even after compression. Please delete some images or text.''\<rparr>)"

definition QRCodeModal_html :: "platform \<Rightarrow> bool \<Rightarrow> jsstring \<Rightarrow> SyncData \<Rightarrow> qr_view" where
  "QRCodeModal_html pf isOpen href d =
     (if \<not> isOpen then NotRendered
      else let r = sync_html pf href d
           in if isTooLong r then TooLargePanel else QRCode (syncUrl r) False)"

section \<open>The plain-text editor (src/App.tsx)\<close>

datatype FormatType = BULLETS | CLEANUP | UPPERCASE | LOWERCASE

type_synonym storage = "jsstring \<rightharpoonup> jsstring"

text \<open>
  The state both editors share: the status line, the information dialog, the page's
  \<open>window.location.hash\<close> and \<open>localStorage\<close>.
\<close>

record app_base =
  statusMessage :: jsstring
  showInfo :: bool
  hash :: jsstring
  localStorage :: storage

record plain_app = app_base +
  content :: jsstring

text \<open>The arrow function mapped over the lines in the \<open>BULLETS\<close> case.\<close>

definition bullet_line :: "jsstring \<Rightarrow> jsstring" where
  "bullet_line line =
     (let trimmed = trim line in
      if trimmed = [] then []
      else if startsWith trimmed (ascii ''-'') \<or> startsWith trimmed [BULLET] then trimmed
      else ascii ''- '' @ trimmed)"

definition bullets :: "jsstring \<Rightarrow> jsstring" where
  "bullets c = join_str [LF] (filter (\<lambda>l. l \<noteq> []) (map bullet_line (split_str LF c)))"

definition cleanup :: "jsstring \<Rightarrow> jsstring" where
  "cleanup c = join_str [LF, LF] (filter (\<lambda>l. 0 < length l) (map trim (split_str LF c)))"

text \<open>
  \<open>handleFormat\<close> of src/App.tsx, lines 61-103: nothing happens on empty content;
  otherwise the new content and the status message are set. (The timer that clears the
  status two seconds later is a later event and is not part of the call.)
\<close>

definition handleFormat :: "platform \<Rightarrow> FormatType \<Rightarrow> plain_app \<Rightarrow> plain_app" where
  "handleFormat pf ty st =
     (if content st = [] then st
      else (case ty of
          CLEANUP \<Rightarrow> st\<lparr>content := cleanup (content st),
                         statusMessage := ascii ''Cleaned up whitespace''\<rparr>
        | BULLETS \<Rightarrow> st\<lparr>content := bullets (content st),
                         statusMessage := ascii ''Converted to list''\<rparr>
        | UPPERCASE \<Rightarrow> st\<lparr>content := toUpperCase pf (content st),
                           statusMessage := ascii ''Uppercased''\<rparr>
        | LOWERCASE \<Rightarrow> st\<lparr>content := toLowerCase pf (content st),
                           statusMessage := ascii ''Lowercased''\<rparr>))"

text \<open>Lines 56-59: the effect that saves the content after every change.\<close>

definition saveEffect :: "plain_app \<Rightarrow> plain_app" where
  "saveEffect st = st\<lparr>localStorage := (localStorage st)(ascii ''bridgeNoteContent'' \<mapsto> content st)\<rparr>"

text \<open>The first-visit dialog, the last statements of every version's mount effect.\<close>

definition first_visit :: "'a app_base_scheme \<Rightarrow> 'a app_base_scheme" where
  "first_visit st =
     (if \<not> truthy (localStorage st (ascii ''hasSeenInfo_offline''))
      then st\<lparr>showInfo := True,
              localStorage := (localStorage st)(ascii ''hasSeenInfo_offline'' \<mapsto> ascii ''true'')\<rparr>
      else st)"

text \<open>
  Lines 25-54, the mount effect: a \<open>#note=\<close> fragment that decodes is imported and the
  effect returns; a \<open>URIError\<close> is caught and logged, and the effect goes on to
  \<open>localStorage\<close> as it does without a fragment.
\<close>

definition loadEffect_plain :: "platform \<Rightarrow> plain_app \<Rightarrow> plain_app" where
  "loadEffect_plain pf st =
     (case (if startsWith (hash st) (ascii ''#note='')
            then decodeURIComponent pf (drop 6 (hash st)) else None) of
        Some decodedContent \<Rightarrow>
          st\<lparr>content := decodedContent,
             statusMessage := ascii ''Note imported from QR Code!'',
             hash := []\<rparr>
      | None \<Rightarrow>
          first_visit
            (case localStorage st (ascii ''bridgeNoteContent'') of
               None \<Rightarrow> st
             | Some savedContent \<Rightarrow> if savedContent \<noteq> [] then st\<lparr>content := savedContent\<rparr> else st))"

section \<open>The rich editor with separate text and images (src/unnamed/part\_003)\<close>

record rich_app = app_base +
  editorHtml :: jsstring
  mounted :: bool
  doc :: editor_doc

text \<open>
  \<open>setEditorHtml(html); if (editorRef.current) editorRef.current.innerHTML = html\<close>;
  \<open>mounted\<close> says that \<open>editorRef.current\<close> is not \<open>null\<close>.
\<close>

definition install :: "platform \<Rightarrow> jsstring \<Rightarrow> rich_app \<Rightarrow> rich_app" where
  "install pf html st =
     st\<lparr>editorHtml := html,
        doc := (if mounted st then (doc st)\<lparr>dom := parseHTML pf html\<rparr> else doc st)\<rparr>"

text \<open>
  Lines 66-71: the tag, \<open>substring(6)\<close>, the decompression, the test of its result
  (\<open>null\<close> and the empty string are falsy) and \<open>JSON.parse\<close>. \<open>None\<close> is every way
  of not getting a value: another tag, a falsy result, a \<open>SyntaxError\<close> that the
  \<open>catch\<close> logs.
\<close>

definition payload_of_hash :: "platform \<Rightarrow> jsstring \<Rightarrow> json option" where
  "payload_of_hash pf h =
     (if startsWith h (ascii ''#data='')
      then (case decompressFromEncodedURIComponent pf (drop 6 h) of
              None \<Rightarrow> None
            | Some decompressed \<Rightarrow>
                if decompressed = [] then None else JSON_parse pf decompressed)
      else None)"

definition imgTag :: "jsstring \<Rightarrow> jsstring" where
  \<open>imgTag src =
     ascii ''<img src="'' @ src @
     ascii ''" class="max-w-full rounded-lg border border-gray-200" /><br/>''\<close>

text \<open>
  \<open>imgs.forEach(img => { html += `<img src="${img}" ... /><br/>` })\<close>: the markup so
  far, and whether the loop ran to its end (the conversion of an element can throw).
\<close>

fun forEach_img :: "platform \<Rightarrow> jsstring \<Rightarrow> json list \<Rightarrow> jsstring \<times> bool" where
  "forEach_img pf html [] = (html, True)"
| "forEach_img pf html (img # imgs) =
     (case template pf img of
        None \<Rightarrow> (html, False)
      | Some s \<Rightarrow> forEach_img pf (html @ imgTag s) imgs)"

text \<open>
  Lines 73-80 on whatever was parsed. \<open>data.t.replace\<close> is a \<open>TypeError\<close> unless
  \<open>data\<close> is an object whose \<open>t\<close> is a string. \<open>data.i && data.i.length > 0\<close> is
  false for an absent, \<open>null\<close>, boolean, numeric or empty \<open>i\<close> and for an object
  whose \<open>length\<close> is absent or not above zero; when it is true, \<open>forEach\<close> exists on
  arrays only. \<open>None\<close> is an exception, caught by the \<open>catch\<close> of line 87.
\<close>

definition html_of_payload :: "platform \<Rightarrow> json \<Rightarrow> jsstring option" where
  \<open>html_of_payload pf data =
     (case data of
        JObj props \<Rightarrow>
          (case map_of props (ascii ''t'') of
             Some (JStr s) \<Rightarrow>
               (let html = ascii ''<div>'' @ replace_newlines s @ ascii ''</div>'' in
                case map_of props (ascii ''i'') of
                  None \<Rightarrow> Some html
                | Some JNull \<Rightarrow> Some html
                | Some (JBool b) \<Rightarrow> Some html
                | Some (JNum n) \<Rightarrow> Some html
                | Some (JStr x) \<Rightarrow> if x = [] then Some html else None
                | Some (JArr imgs) \<Rightarrow>
                    if length imgs > 0
                    then (case forEach_img pf (html @ ascii ''<div class="mt-4 grid gap-2">'') imgs of
                            (h, True) \<Rightarrow> Some (h @ ascii ''</div>'')
                          | (h, False) \<Rightarrow> None)
                    else Some html
                | Some (JObj ps) \<Rightarrow>
                    (case map_of ps (ascii ''length'') of
                       None \<Rightarrow> Some html
                     | Some l \<Rightarrow> (case gtZero pf l of Some False \<Rightarrow> Some html | _ \<Rightarrow> None)))
           | _ \<Rightarrow> None)
      | _ \<Rightarrow> None)\<close>

text \<open>
  Lines 100-108: the markup of the legacy slots. The inner \<open>try\<close> swallows a
  \<open>SyntaxError\<close>, a value that is no array, and an exception in the middle of the loop,
  keeping the markup built so far.
\<close>

definition legacy_html :: "platform \<Rightarrow> jsstring option \<Rightarrow> jsstring option \<Rightarrow> jsstring" where
  "legacy_html pf legacyContent legacyImagesStr =
     (let html = ascii ''<div>'' @
                 replace_newlines (case legacyContent of None \<Rightarrow> [] | Some c \<Rightarrow> c) @
                 ascii ''</div>''
      in case legacyImagesStr of
           None \<Rightarrow> html
         | Some s \<Rightarrow>
             if s = [] then html
             else (case JSON_parse pf s of
                     Some (JArr imgs) \<Rightarrow> fst (forEach_img pf html imgs)
                   | _ \<Rightarrow> html))"

text \<open>Lines 90-115: the unified slot, else the migration of the two legacy slots.\<close>

definition from_storage :: "platform \<Rightarrow> rich_app \<Rightarrow> rich_app" where
  "from_storage pf st =
     (let savedHtml = localStorage st (ascii ''bridgeNoteHtml'') in
      if truthy savedHtml then install pf (case savedHtml of None \<Rightarrow> [] | Some h \<Rightarrow> h) st
      else
        let legacyContent = localStorage st (ascii ''bridgeNoteContent'');
            legacyImagesStr = localStorage st (ascii ''bridgeNoteImages'')
        in if truthy legacyContent \<or> truthy legacyImagesStr
           then (install pf (legacy_html pf legacyContent legacyImagesStr) st)
                  \<lparr>localStorage := (localStorage st)
                     (ascii ''bridgeNoteContent'' := None, ascii ''bridgeNoteImages'' := None)\<rparr>
           else st)"

text \<open>Lines 64-116, \<open>initContent\<close>.\<close>

definition initContent :: "platform \<Rightarrow> rich_app \<Rightarrow> rich_app" where
  "initContent pf st =
     (case Option.bind (payload_of_hash pf (hash st)) (html_of_payload pf) of
        Some html \<Rightarrow>
          (install pf html st)\<lparr>statusMessage := ascii ''Synced via QR!'', hash := []\<rparr>
      | None \<Rightarrow> from_storage pf st)"

text \<open>Lines 61-125, the mount effect.\<close>

definition loadEffect :: "platform \<Rightarrow> rich_app \<Rightarrow> rich_app" where
  "loadEffect pf st = first_visit (initContent pf st)"

text \<open>Lines 128-134, \<open>handleInput\<close>.\<close>

definition handleInput :: "platform \<Rightarrow> rich_app \<Rightarrow> rich_app" where
  "handleInput pf st =
     (if mounted st
      then (let html = innerHTML_of pf (dom (doc st)) in
            st\<lparr>editorHtml := html,
               localStorage := (localStorage st)(ascii ''bridgeNoteHtml'' \<mapsto> html)\<rparr>)
      else st)"

text \<open>
  Lines 214-248, \<open>handleFormat\<close>. \<open>styleWithCSS\<close> switches a mode of the document;
  the other commands are the browser's.
\<close>

definition active_selection :: "editor_doc \<Rightarrow> jsstring option" where
  "active_selection d =
     (case selection d of
        None \<Rightarrow> None
      | Some s \<Rightarrow> if \<not> isCollapsed s then Some (selected s) else None)"

definition handleFormat_rich :: "platform \<Rightarrow> FormatType \<Rightarrow> rich_app \<Rightarrow> rich_app" where
  "handleFormat_rich pf ty st0 =
     (let st = st0\<lparr>doc := (doc st0)\<lparr>styleWithCSS := True\<rparr>\<rparr> in
      handleInput pf
        (case ty of
           BULLETS \<Rightarrow> st\<lparr>doc := execCommand pf InsertUnorderedList (doc st)\<rparr>
         | CLEANUP \<Rightarrow> st\<lparr>doc := execCommand pf RemoveFormat (doc st),
                          statusMessage := ascii ''Styles removed''\<rparr>
         | UPPERCASE \<Rightarrow>
             (case active_selection (doc st) of
                Some text \<Rightarrow> st\<lparr>doc := execCommand pf (InsertText (toUpperCase pf text)) (doc st)\<rparr>
              | None \<Rightarrow> st\<lparr>statusMessage := ascii ''Select text first''\<rparr>)
         | LOWERCASE \<Rightarrow>
             (case active_selection (doc st) of
                Some text \<Rightarrow> st\<lparr>doc := execCommand pf (InsertText (toLowerCase pf text)) (doc st)\<rparr>
              | None \<Rightarrow> st\<lparr>statusMessage := ascii ''Select text first''\<rparr>)))"







section \<open>The rich editor with one HTML payload (src/unnamed/part\_004)\<close>

text \<open>
  Lines 115-135, \<open>initContent\<close>: \<open>data.t\<close> is installed as it is. It is a
  \<open>TypeError\<close> (caught) on \<open>null\<close> only; on any other value without a string
  \<open>t\<close> the editor state receives a value that is no string (\<open>NonString\<close>, with
  the value of \<open>data.t\<close>, \<open>None\<close> for \<open>undefined\<close>).
\<close>

datatype load_html = Loaded rich_app | NonString "json option"

definition saved_html :: "platform \<Rightarrow> rich_app \<Rightarrow> rich_app" where
  "saved_html pf st =
     (case localStorage st (ascii ''bridgeNoteHtml'') of
        None \<Rightarrow> st
      | Some savedHtml \<Rightarrow> if savedHtml \<noteq> [] then install pf savedHtml st else st)"

definition initContent_html :: "platform \<Rightarrow> rich_app \<Rightarrow> load_html" where
  "initContent_html pf st =
     (case payload_of_hash pf (hash st) of
        None \<Rightarrow> Loaded (saved_html pf st)
      | Some JNull \<Rightarrow> Loaded (saved_html pf st)
      | Some (JObj props) \<Rightarrow>
          (case map_of props (ascii ''t'') of
             Some (JStr s) \<Rightarrow>
               Loaded ((install pf s st)\<lparr>statusMessage := ascii ''Synced via QR!'', hash := []\<rparr>)
           | v \<Rightarrow> NonString v)
      | Some other \<Rightarrow> NonString None)"

definition loadEffect_html :: "platform \<Rightarrow> rich_app \<Rightarrow> load_html" where
  "loadEffect_html pf st =
     (case initContent_html pf st of
        Loaded st' \<Rightarrow> Loaded (first_visit st')
      | NonString v \<Rightarrow> NonString v)"

text \<open>
  Lines 244-275, \<open>handleFormat\<close>: the case conversions have no \<open>else\<close> branch, the
  cleanup rewrites the editor through \<open>cleanHTML\<close> (lines 61-108, a DOM walk that is
  passed in), and the editor is focused at the end.
\<close>

definition handleFormat_html :: "platform \<Rightarrow> FormatType \<Rightarrow> rich_app \<Rightarrow> rich_app" where
  "handleFormat_html pf ty st0 =
     (let st = st0\<lparr>doc := (doc st0)\<lparr>styleWithCSS := True\<rparr>\<rparr>;
          st1 =
            (case ty of
               BULLETS \<Rightarrow> st\<lparr>doc := execCommand pf InsertUnorderedList (doc st)\<rparr>
             | CLEANUP \<Rightarrow>
                 if mounted st
                 then (handleInput pf
                         (st\<lparr>doc := (doc st)\<lparr>dom :=
                            parseHTML pf (cleanHTML pf (innerHTML_of pf (dom (doc st))))\<rparr>\<rparr>))
                      \<lparr>statusMessage := ascii ''Content cleaned''\<rparr>
                 else st
             | UPPERCASE \<Rightarrow>
                 (case active_selection (doc st) of
                    Some text \<Rightarrow> st\<lparr>doc := execCommand pf (InsertText (toUpperCase pf text)) (doc st)\<rparr>
                  | None \<Rightarrow> st)
             | LOWERCASE \<Rightarrow>
                 (case active_selection (doc st) of
                    Some text \<Rightarrow> st\<lparr>doc := execCommand pf (InsertText (toLowerCase pf text)) (doc st)\<rparr>
                  | None \<Rightarrow> st))
      in if mounted st1 then st1\<lparr>doc := (doc st1)\<lparr>focused := True\<rparr>\<rparr> else st1)"











section \<open>A concrete platform for evaluation\<close>

text \<open>
  Stand-ins for the platform functions, used to run the program on concrete inputs: a
  codec that stores the text as it is, a printer of JSON values without escapes and a
  parser that knows the values listed in \<open>stub_values\<close>, a percent-decoder that
  rejects every string with a \<open>%\<close>, an image converter that succeeds on one host
  only, a serialiser of the DOM, and editing commands that do nothing.
\<close>

fun stub_stringify :: "json \<Rightarrow> jsstring" where
  \<open>stub_stringify JNull = ascii ''null''\<close>
| \<open>stub_stringify (JBool b) = (if b then ascii ''true'' else ascii ''false'')\<close>
| \<open>stub_stringify (JNum n) = ascii ''0''\<close>
| \<open>stub_stringify (JStr s) = ascii ''"'' @ s @ ascii ''"''\<close>
| \<open>stub_stringify (JArr vs) = ascii ''['' @ join_str (ascii '','') (map stub_stringify vs) @ ascii '']''\<close>
| \<open>stub_stringify (JObj ps) =
     ascii ''{'' @
     join_str (ascii '','') (map (\<lambda>kv. ascii ''"'' @ fst kv @ ascii ''":'' @ stub_stringify (snd kv)) ps) @
     ascii ''}''\<close>

definition stub_values :: "json list" where
  "stub_values =
     [toJson \<lparr>t = ascii ''Hello'', i = Some [ascii ''data:image/png;base64,AAAA'']\<rparr>,
      toJson \<lparr>t = ascii ''Hello'', i = None\<rparr>,
      toJson \<lparr>t = [], i = Some []\<rparr>,
      JObj [(ascii ''t'', JStr (ascii ''x'')), (ascii ''i'', JBool True)],
      JArr [JStr (ascii ''data:image/png;base64,AAAA'')]]"

definition stub_parse :: "jsstring \<Rightarrow> json option" where
  "stub_parse s = List.find (\<lambda>v. stub_stringify v = s) stub_values"

fun stub_serialize :: "node \<Rightarrow> jsstring" where
  \<open>stub_serialize (Element tag as kids) =
     ascii ''<'' @ tag @
     concat (map (\<lambda>kv. ascii '' '' @ fst kv @ ascii ''="'' @ snd kv @ ascii ''"'') as) @
     ascii ''>'' @ concat (map stub_serialize kids) @
     (if tag = ascii ''img'' \<or> tag = ascii ''br'' then [] else ascii ''</'' @ tag @ ascii ''>'')\<close>
| \<open>stub_serialize (TextNode s) = s\<close>
| \<open>stub_serialize (Comment s) = ascii ''<!--'' @ s @ ascii ''-->''\<close>

fun stub_text :: "node \<Rightarrow> jsstring" where
  "stub_text (Element tag as kids) = concat (map stub_text kids)"
| "stub_text (TextNode s) = s"
| "stub_text (Comment s) = []"

definition stub_platform :: platform where
  "stub_platform =
     \<lparr>encodeURIComponent = Some,
      decodeURIComponent = (\<lambda>s. if 0x25 \<in> set s then None else Some s),
      compressToEncodedURIComponent = (\<lambda>s. s),
      decompressFromEncodedURIComponent = Some,
      JSON_stringify = stub_stringify,
      JSON_parse = stub_parse,
      toStringJS = (\<lambda>v. Some (stub_stringify v)),
      gtZero = (\<lambda>v. Some False),
      toUpperCase = (\<lambda>s. s),
      toLowerCase = (\<lambda>s. s),
      toBase64 = (\<lambda>url. if startsWith url (ascii ''https://open.example/'')
                          then Some (ascii ''data:image/png;base64,QUJD'') else None),
      innerText_of = (\<lambda>ns. concat (map stub_text ns)),
      innerHTML_of = (\<lambda>ns. concat (map stub_serialize ns)),
      parseHTML = (\<lambda>s. [TextNode s]),
      execCommand = (\<lambda>c d. d),
      cleanHTML = (\<lambda>s. s)\<rparr>"

text \<open>A freshly started rich editor: nothing typed, nothing stored, no selection.\<close>

definition fresh_doc :: editor_doc where
  "fresh_doc = \<lparr>dom = [], selection = None, styleWithCSS = False, focused = False\<rparr>"

definition fresh_app :: rich_app where
  "fresh_app =
     \<lparr>statusMessage = [], showInfo = False, hash = [], localStorage = Map.empty,
      editorHtml = [], mounted = True, doc = fresh_doc\<rparr>"

definition fresh_plain :: plain_app where
  "fresh_plain =
     \<lparr>statusMessage = [], showInfo = False, hash = [], localStorage = Map.empty, content = []\<rparr>"

section \<open>Notions used in the statements\<close>

text \<open>
  What the libraries promise at one value: \<open>JSON.stringify\<close> gives a text that is
  not empty and that \<open>JSON.parse\<close> reads back, and lz-string decompresses what it
  compressed from that text.
\<close>

definition round_trips :: "platform \<Rightarrow> json \<Rightarrow> bool" where
  "round_trips pf v =
     (let s = JSON_stringify pf v in
      s \<noteq> [] \<and> JSON_parse pf s = Some v \<and>
      decompressFromEncodedURIComponent pf (compressToEncodedURIComponent pf s) = Some s)"

text \<open>
  The markup lines 73-80 of src/unnamed/part\_003 build from a payload whose \<open>t\<close> is
  a string and whose \<open>i\<close> is absent or a list of strings.
\<close>

definition payload_html :: "SyncData \<Rightarrow> jsstring" where
  \<open>payload_html d =
     ascii ''<div>'' @ replace_newlines (t d) @ ascii ''</div>'' @
     (case i d of
        None \<Rightarrow> []
      | Some imgs \<Rightarrow>
          if imgs = [] then []
          else ascii ''<div class="mt-4 grid gap-2">'' @ concat (map imgTag imgs) @ ascii ''</div>'')\<close>

text \<open>Two notes for evaluation: a short one, and one with an image of 2200 code units.\<close>

definition hello_note :: SyncData where
  "hello_note = \<lparr>t = ascii ''Hello'', i = Some [ascii ''data:image/png;base64,AAAA'']\<rparr>"

definition big_note :: SyncData where
  "big_note = \<lparr>t = ascii ''Hello'', i = Some [replicate 2200 0x41]\<rparr>"

text \<open>A page address with a query of 2200 code units.\<close>

definition long_href :: jsstring where
  "long_href = ascii ''https://bridge.example/?q='' @ replicate 2200 0x61"

text \<open>
  The decode of src/unnamed/part\_003 fails on a fragment: the tag is not \<open>#data=\<close>,
  the decompression gives \<open>null\<close> or the empty string, \<open>JSON.parse\<close> throws, or
  building the markup throws.
\<close>

definition decode_fails :: "platform \<Rightarrow> jsstring \<Rightarrow> bool" where
  "decode_fails pf h =
     (\<not> startsWith h (ascii ''#data='') \<or>
      (case decompressFromEncodedURIComponent pf (drop 6 h) of
         None \<Rightarrow> True
       | Some s \<Rightarrow>
           s = [] \<or>
           (case JSON_parse pf s of
              None \<Rightarrow> True
            | Some v \<Rightarrow> html_of_payload pf v = None)))"

text \<open>
  Two stored states for evaluation: a note in the unified slot, and the legacy pair of a
  text slot and an image-list slot.
\<close>

definition saved_app :: rich_app where
  "saved_app = fresh_app\<lparr>localStorage := [ascii ''bridgeNoteHtml'' \<mapsto> ascii ''<p>saved</p>'']\<rparr>"


text \<open>
  An editor for evaluation: a line of text and one image on a host whose images cannot
  be converted.
\<close>

definition blocked_img :: attrs where
  "blocked_img = [(ascii ''style'', ascii ''float:left''), (ascii ''src'', ascii ''http://blocked.example/a.png'')]"

definition blocked_app :: rich_app where
  "blocked_app = fresh_app\<lparr>doc := fresh_doc\<lparr>dom :=
     [Element (ascii ''div'') [] [TextNode (ascii ''Hi'')],
      Element (ascii ''img'') blocked_img []]\<rparr>\<rparr>"








section \<open>Splitting, joining and trimming\<close>

lemma split_str_ne: "split_str c s \<noteq> []"
  by (induction s) (auto split: list.splits)

lemma split_str_no_sep: "l \<in> set (split_str c s) \<Longrightarrow> c \<notin> set l"
  by (induction s arbitrary: l) (auto split: list.splits if_splits)

lemma split_str_single: "c \<notin> set l \<Longrightarrow> split_str c l = [l]"
  by (induction l) auto

lemma split_str_app: "c \<notin> set l \<Longrightarrow> split_str c (l @ c # r) = l # split_str c r"
  by (induction l) auto

lemma split_join:
  "ls \<noteq> [] \<Longrightarrow> \<forall>l\<in>set ls. c \<notin> set l \<Longrightarrow> split_str c (join_str [c] ls) = ls"
proof (induction "[c]" ls rule: join_str.induct)
  case 1 then show ?case by simp
next
  case (2 l) then show ?case by (simp add: split_str_single)
next
  case (3 l m ls)
  then show ?case by (simp add: split_str_app)
qed

lemma trim_decomp: "\<exists>a b. dropWhile is_ws s = trim s @ b \<and> s = a @ trim s @ b"
proof -
  let ?d = "dropWhile is_ws s"
  have "rev ?d = takeWhile is_ws (rev ?d) @ dropWhile is_ws (rev ?d)" by simp
  then have "?d = rev (dropWhile is_ws (rev ?d)) @ rev (takeWhile is_ws (rev ?d))"
    by (metis rev_append rev_rev_ident)
  then have d: "?d = trim s @ rev (takeWhile is_ws (rev ?d))"
    by (simp add: trim_def)
  have "s = takeWhile is_ws s @ ?d" by simp
  with d show ?thesis by metis
qed

lemma set_trim: "set (trim s) \<subseteq> set s"
  using trim_decomp [of s] by (metis Un_upper1 Un_upper2 set_append subset_trans)

lemma trim_hd: assumes "trim s \<noteq> []" shows "\<not> is_ws (hd (trim s))"
proof -
  obtain b where d: "dropWhile is_ws s = trim s @ b" using trim_decomp by blast
  with assms have ne: "dropWhile is_ws s \<noteq> []" by simp
  have "hd (dropWhile is_ws s) = hd (trim s)" using d assms by (metis hd_append2)
  with hd_dropWhile [OF ne] show ?thesis by simp
qed

lemma trim_last: assumes "trim s \<noteq> []" shows "\<not> is_ws (last (trim s))"
proof -
  let ?r = "dropWhile is_ws (rev (dropWhile is_ws s))"
  from assms have ne: "?r \<noteq> []" by (simp add: trim_def)
  have "last (trim s) = hd ?r" using ne by (simp add: trim_def last_rev)
  with hd_dropWhile [OF ne] show ?thesis by simp
qed

lemma trim_id: assumes "s \<noteq> []" "\<not> is_ws (hd s)" "\<not> is_ws (last s)" shows "trim s = s"
proof -
  have 1: "dropWhile is_ws s = s" using assms by (simp add: dropWhile_eq_self_iff)
  have "dropWhile is_ws (rev s) = rev s" using assms by (simp add: dropWhile_eq_self_iff hd_rev)
  with 1 show ?thesis by (simp add: trim_def)
qed

lemma dash_not_ws: "\<not> is_ws 45"
  by (simp add: is_ws_def)

lemma bullet_line_fix:
  assumes "bullet_line l \<noteq> []" shows "bullet_line (bullet_line l) = bullet_line l"
proof -
  let ?t = "trim l"
  from assms have t: "?t \<noteq> []" by (auto simp: bullet_line_def Let_def split: if_splits)
  note h = trim_hd [OF t] and la = trim_last [OF t]
  show ?thesis
  proof (cases "startsWith ?t (ascii ''-'') \<or> startsWith ?t [BULLET]")
    case True
    then have b: "bullet_line l = ?t" using t by (simp add: bullet_line_def Let_def)
    have "trim ?t = ?t" using t h la by (rule trim_id)
    then show ?thesis using b True t by (simp add: bullet_line_def Let_def)
  next
    case False
    then have b: "bullet_line l = ascii ''- '' @ ?t" using t by (simp add: bullet_line_def Let_def)
    have "trim (ascii ''- '' @ ?t) = ascii ''- '' @ ?t"
      using t la by (intro trim_id) (simp_all add: ascii_def dash_not_ws)
    then show ?thesis using b by (simp add: bullet_line_def Let_def startsWith_def ascii_def)
  qed
qed

lemma bullet_line_no_LF: "LF \<notin> set l \<Longrightarrow> LF \<notin> set (bullet_line l)"
  using set_trim [of l] by (auto simp: bullet_line_def Let_def ascii_def)

lemma bullets_lines:
  assumes "l \<in> set (filter (\<lambda>l. l \<noteq> []) (map bullet_line (split_str LF c)))"
  shows "bullet_line l = l" and "l \<noteq> []" and "LF \<notin> set l"
proof -
  from assms obtain x where x: "x \<in> set (split_str LF c)" "l = bullet_line x" "l \<noteq> []"
    by auto
  show "l \<noteq> []" by (rule x(3))
  show "bullet_line l = l" using x(2,3) bullet_line_fix by simp
  have "LF \<notin> set x" using x(1) by (rule split_str_no_sep)
  then show "LF \<notin> set l" unfolding x(2) by (rule bullet_line_no_LF)
qed

lemma bullets_empty: "bullets [] = []"
  by (simp add: bullets_def bullet_line_def trim_def)

lemma bullets_idem: "bullets (bullets c) = bullets c"
proof -
  define ls where "ls = filter (\<lambda>l. l \<noteq> []) (map bullet_line (split_str LF c))"
  have b: "bullets c = join_str [LF] ls" by (simp add: bullets_def ls_def)
  show ?thesis
  proof (cases "ls = []")
    case True
    then show ?thesis by (simp add: b bullets_empty)
  next
    case False
    have "\<forall>l\<in>set ls. LF \<notin> set l" using bullets_lines(3) unfolding ls_def by blast
    with False have 1: "split_str LF (join_str [LF] ls) = ls" by (rule split_join)
    have 2: "map bullet_line ls = ls"
      using bullets_lines(1) unfolding ls_def by (intro map_idI) blast
    have 3: "filter (\<lambda>l. l \<noteq> []) ls = ls" by (simp add: ls_def)
    have "bullets (join_str [LF] ls) = join_str [LF] ls"
      unfolding bullets_def 1 2 3 ..
    then show ?thesis by (simp only: b)
  qed
qed

section \<open>Bulleting is idempotent\<close>

text \<open>
  C10. The \<open>BULLETS\<close> transform of the plain editor is idempotent: applied twice to
  any content it gives the string it gives when applied once, as a function of the
  content and as the handler on the editor's state. The lines it produces are not empty,
  are their own trim and start with a marker (\<open>bullet_line_fix\<close>,
  \<open>bullets_lines\<close>), so a second pass changes none of them.
\<close>

theorem bullets_idempotent:
  "bullets (bullets c) = bullets c \<and>
   handleFormat pf BULLETS (handleFormat pf BULLETS st) = handleFormat pf BULLETS st"
  by (simp add: handleFormat_def bullets_idem)

section \<open>From the encoder to the decoder\<close>

lemma baseUrl_no_hash: "HASH \<notin> set (baseUrl href)"
proof -
  obtain b bs where s: "split_str HASH href = b # bs"
    using split_str_ne [of HASH href] by (cases "split_str HASH href") auto
  then have "b \<in> set (split_str HASH href)" by simp
  then have "HASH \<notin> set b" by (rule split_str_no_sep)
  with s show ?thesis by (simp add: baseUrl_def)
qed

lemma location_hash_fragment:
  assumes "HASH \<notin> set b" shows "location_hash (b @ ascii ''#data='' @ c) = ascii ''#data='' @ c"
proof -
  have "dropWhile (\<lambda>x. x \<noteq> HASH) (b @ ascii ''#data='' @ c) = ascii ''#data='' @ c"
    using assms by (simp add: dropWhile_append ascii_def)
  then show ?thesis by (simp add: location_hash_def ascii_def)
qed

lemma location_hash_dataUrl:
  "location_hash (dataUrl pf href d) =
     ascii ''#data='' @ compressToEncodedURIComponent pf (JSON_stringify pf (toJson d))"
  unfolding dataUrl_def by (rule location_hash_fragment) (rule baseUrl_no_hash)

lemma payload_of_hash_round_trip:
  assumes "round_trips pf v"
  shows "payload_of_hash pf (ascii ''#data='' @ compressToEncodedURIComponent pf (JSON_stringify pf v)) = Some v"
  using assms by (simp add: round_trips_def Let_def payload_of_hash_def startsWith_def ascii_def)

lemma forEach_img_strings:
  "forEach_img pf h (map JStr imgs) = (h @ concat (map imgTag imgs), True)"
  by (induction imgs arbitrary: h) (simp_all add: template_def)

lemma html_of_payload_toJson: "html_of_payload pf (toJson d) = Some (payload_html d)"
proof (cases "i d")
  case None
  then show ?thesis by (simp add: html_of_payload_def toJson_def payload_html_def ascii_def)
next
  case (Some imgs)
  then show ?thesis
    by (cases "imgs = []") (simp_all add: html_of_payload_def toJson_def payload_html_def ascii_def
        forEach_img_strings Let_def)
qed

lemma toJson_inject: "toJson d = toJson d' \<Longrightarrow> t d = t d' \<and> i d = i d'"
proof -
  have "inj JStr" by (rule injI) simp
  then have "\<And>xs ys. map JStr xs = map JStr ys \<longleftrightarrow> xs = ys" by (rule inj_map_eq_map)
  then show "toJson d = toJson d' \<Longrightarrow> t d = t d' \<and> i d = i d'"
    by (auto simp: toJson_def split: option.splits)
qed

lemma initContent_payload:
  assumes "payload_of_hash pf (hash st) = Some v" "html_of_payload pf v = Some html"
  shows "initContent pf st = (install pf html st)\<lparr>statusMessage := ascii ''Synced via QR!'', hash := []\<rparr>"
  using assms by (simp add: initContent_def)

lemma initContent_no_payload:
  assumes "Option.bind (payload_of_hash pf (hash st)) (html_of_payload pf) = None"
  shows "initContent pf st = from_storage pf st"
  using assms by (simp add: initContent_def)

lemma stub_round_trips_hello: "round_trips stub_platform (toJson hello_note)"
  by (simp add: round_trips_def stub_platform_def stub_parse_def stub_values_def hello_note_def
      toJson_def ascii_def)

lemma stub_round_trips_text: "round_trips stub_platform (toJson \<lparr>t = ascii ''Hello'', i = None\<rparr>)"
  by (simp add: round_trips_def stub_platform_def stub_parse_def stub_values_def
      toJson_def ascii_def)

lemma baseUrl_example: "baseUrl (ascii ''https://bridge.example/#old'') = ascii ''https://bridge.example/''"
  by (simp add: baseUrl_def ascii_def)

lemma dataUrl_hello:
  \<open>dataUrl stub_platform (ascii ''https://bridge.example/#old'') hello_note =
     ascii ''https://bridge.example/#data={"t":"Hello","i":["data:image/png;base64,AAAA"]}''\<close>
  by (simp add: dataUrl_def baseUrl_example) (simp add: stub_platform_def hello_note_def toJson_def ascii_def)

text \<open>
  C1. A note whose full URL is under the ceiling of 2200 comes back: the modal of
  src/components/QRCodeModal.tsx hands out the full URL, and \<open>initContent\<close> of
  src/unnamed/part\_003, run on the fragment of that URL, parses the very object that was
  encoded (the same text, the same images in the same order; \<open>toJson_inject\<close>) and
  installs the markup built from it. The libraries are assumed to round-trip the payload.
\<close>

theorem roundtrip_under_ceiling:
  assumes "length (dataUrl pf href d) < 2200" and "round_trips pf (toJson d)"
  shows "sync_split pf href d = \<lparr>syncUrl = dataUrl pf href d, isTooLong = False, hasImagesError = False\<rparr> \<and>
     payload_of_hash pf (location_hash (syncUrl (sync_split pf href d))) = Some (toJson d) \<and>
     initContent pf (st\<lparr>hash := location_hash (syncUrl (sync_split pf href d))\<rparr>) =
       (install pf (payload_html d) st)\<lparr>statusMessage := ascii ''Synced via QR!'', hash := []\<rparr>"
proof -
  have r: "sync_split pf href d = \<lparr>syncUrl = dataUrl pf href d, isTooLong = False, hasImagesError = False\<rparr>"
    using assms(1) by (simp add: sync_split_def Let_def)
  have p: "payload_of_hash pf (location_hash (dataUrl pf href d)) = Some (toJson d)"
    unfolding location_hash_dataUrl using assms(2) by (rule payload_of_hash_round_trip)
  have "initContent pf (st\<lparr>hash := location_hash (dataUrl pf href d)\<rparr>) =
       (install pf (payload_html d) (st\<lparr>hash := location_hash (dataUrl pf href d)\<rparr>))
         \<lparr>statusMessage := ascii ''Synced via QR!'', hash := []\<rparr>"
    by (rule initContent_payload [where v = "toJson d"]) (simp_all add: p html_of_payload_toJson)
  then have "initContent pf (st\<lparr>hash := location_hash (dataUrl pf href d)\<rparr>) =
       (install pf (payload_html d) st)\<lparr>statusMessage := ascii ''Synced via QR!'', hash := []\<rparr>"
    by (simp add: install_def)
  with r p show ?thesis by simp
qed


theorem roundtrip_under_ceiling_witness:
  \<open>length (dataUrl stub_platform (ascii ''https://bridge.example/#old'') hello_note) < 2200 \<and>
   round_trips stub_platform (toJson hello_note) \<and>
   syncUrl (sync_split stub_platform (ascii ''https://bridge.example/#old'') hello_note) =
     ascii ''https://bridge.example/#data={"t":"Hello","i":["data:image/png;base64,AAAA"]}'' \<and>
   payload_of_hash stub_platform
       (ascii ''#data={"t":"Hello","i":["data:image/png;base64,AAAA"]}'') =
     Some (toJson hello_note) \<and>
   editorHtml (initContent stub_platform
       (fresh_app\<lparr>hash := ascii ''#data={"t":"Hello","i":["data:image/png;base64,AAAA"]}''\<rparr>)) =
     ascii ''<div>Hello</div><div class="mt-4 grid gap-2"><img src="data:image/png;base64,AAAA" class="max-w-full rounded-lg border border-gray-200" /><br/></div>''\<close>
proof -
  let ?href = "ascii ''https://bridge.example/#old''"
  have h1: "length (dataUrl stub_platform ?href hello_note) < 2200"
    by (simp add: dataUrl_hello) (simp add: ascii_def)
  note h2 = stub_round_trips_hello
  note T = roundtrip_under_ceiling [OF h1 h2, of fresh_app]
  have u: "syncUrl (sync_split stub_platform ?href hello_note) = dataUrl stub_platform ?href hello_note"
    by (simp add: T [THEN conjunct1])
  have lh: \<open>location_hash (dataUrl stub_platform ?href hello_note) =
      ascii ''#data={"t":"Hello","i":["data:image/png;base64,AAAA"]}''\<close>
    by (simp add: dataUrl_hello) (simp add: location_hash_def ascii_def)
  have ph: \<open>payload_html hello_note =
     ascii ''<div>Hello</div><div class="mt-4 grid gap-2"><img src="data:image/png;base64,AAAA" class="max-w-full rounded-lg border border-gray-200" /><br/></div>''\<close>
    by (simp add: payload_html_def hello_note_def imgTag_def replace_newlines_def ascii_def)
  note u' = u [unfolded dataUrl_hello]
  note b = T [THEN conjunct2, THEN conjunct1, unfolded u lh]
  have c: \<open>editorHtml (initContent stub_platform
       (fresh_app\<lparr>hash := ascii ''#data={"t":"Hello","i":["data:image/png;base64,AAAA"]}''\<rparr>)) =
     payload_html hello_note\<close>
    by (simp add: T [THEN conjunct2, THEN conjunct2, unfolded u lh] install_def)
  show ?thesis by (intro conjI h1 h2 u' b c [unfolded ph])
qed

lemma sync_split_degraded:
  assumes "i d = Some imgs" "imgs \<noteq> []"
    and "2200 \<le> length (dataUrl pf href d)"
    and "length (dataUrl pf href \<lparr>t = t d, i = None\<rparr>) < 2200"
  shows "sync_split pf href d =
     \<lparr>syncUrl = dataUrl pf href \<lparr>t = t d, i = None\<rparr>, isTooLong = False, hasImagesError = True\<rparr>"
  using assms by (simp add: sync_split_def Let_def)

text \<open>
  C2. A note with at least one image whose full URL reaches the ceiling of 2200 while its
  text-only URL stays under it gets the degraded success of
  src/components/QRCodeModal.tsx: the text-only URL with the images-skipped flag set, shown
  as a code. Decoding its fragment gives the object with the text alone, and the loader
  installs the text's markup without any image. The libraries are assumed to round-trip
  the text-only payload.
\<close>

theorem images_skipped_when_text_fits:
  assumes "i d = Some imgs" "imgs \<noteq> []"
    and "2200 \<le> length (dataUrl pf href d)"
    and "length (dataUrl pf href \<lparr>t = t d, i = None\<rparr>) < 2200"
    and "round_trips pf (toJson \<lparr>t = t d, i = None\<rparr>)"
  shows "sync_split pf href d =
       \<lparr>syncUrl = dataUrl pf href \<lparr>t = t d, i = None\<rparr>, isTooLong = False, hasImagesError = True\<rparr> \<and>
     QRCodeModal pf True href d = QRCode (dataUrl pf href \<lparr>t = t d, i = None\<rparr>) True \<and>
     payload_of_hash pf (location_hash (syncUrl (sync_split pf href d))) =
       Some (JObj [(ascii ''t'', JStr (t d))]) \<and>
     initContent pf (st\<lparr>hash := location_hash (syncUrl (sync_split pf href d))\<rparr>) =
       (install pf (ascii ''<div>'' @ replace_newlines (t d) @ ascii ''</div>'') st)
         \<lparr>statusMessage := ascii ''Synced via QR!'', hash := []\<rparr>"
proof -
  let ?td = "\<lparr>t = t d, i = None\<rparr>"
  have r: "sync_split pf href d =
      \<lparr>syncUrl = dataUrl pf href ?td, isTooLong = False, hasImagesError = True\<rparr>"
    using assms(1-4) by (rule sync_split_degraded)
  have q: "QRCodeModal pf True href d = QRCode (dataUrl pf href ?td) True"
    by (simp add: QRCodeModal_def r)
  have j: "toJson ?td = JObj [(ascii ''t'', JStr (t d))]" by (simp add: toJson_def)
  have p: "payload_of_hash pf (location_hash (dataUrl pf href ?td)) = Some (toJson ?td)"
    unfolding location_hash_dataUrl using assms(5) by (rule payload_of_hash_round_trip)
  have h: "html_of_payload pf (toJson ?td) = Some (ascii ''<div>'' @ replace_newlines (t d) @ ascii ''</div>'')"
    by (simp add: html_of_payload_toJson payload_html_def)
  have "initContent pf (st\<lparr>hash := location_hash (dataUrl pf href ?td)\<rparr>) =
       (install pf (ascii ''<div>'' @ replace_newlines (t d) @ ascii ''</div>'')
          (st\<lparr>hash := location_hash (dataUrl pf href ?td)\<rparr>))
         \<lparr>statusMessage := ascii ''Synced via QR!'', hash := []\<rparr>"
    by (rule initContent_payload [where v = "toJson ?td"]) (simp_all add: p h)
  then have c: "initContent pf (st\<lparr>hash := location_hash (dataUrl pf href ?td)\<rparr>) =
       (install pf (ascii ''<div>'' @ replace_newlines (t d) @ ascii ''</div>'') st)
         \<lparr>statusMessage := ascii ''Synced via QR!'', hash := []\<rparr>"
    by (simp add: install_def)
  have u: "syncUrl (sync_split pf href d) = dataUrl pf href ?td" by (simp add: r)
  show ?thesis unfolding u using r q p c by (simp add: j)
qed

lemma stub_stringify_big:
  \<open>stub_stringify (toJson big_note) =
     ascii ''{"t":"Hello","i":["'' @ replicate 2200 0x41 @ ascii ''"]}''\<close>
  by (simp add: big_note_def toJson_def ascii_def)

lemma dataUrl_big_text:
  \<open>dataUrl stub_platform (ascii ''https://bridge.example/#old'') \<lparr>t = t big_note, i = None\<rparr> =
     ascii ''https://bridge.example/#data={"t":"Hello"}''\<close>
  by (simp add: dataUrl_def baseUrl_example) (simp add: stub_platform_def big_note_def toJson_def ascii_def)

theorem images_skipped_when_text_fits_witness:
  \<open>i big_note = Some [replicate 2200 0x41] \<and>
   2200 \<le> length (dataUrl stub_platform (ascii ''https://bridge.example/#old'') big_note) \<and>
   length (dataUrl stub_platform (ascii ''https://bridge.example/#old'') \<lparr>t = t big_note, i = None\<rparr>) < 2200 \<and>
   round_trips stub_platform (toJson \<lparr>t = t big_note, i = None\<rparr>) \<and>
   QRCodeModal stub_platform True (ascii ''https://bridge.example/#old'') big_note =
     QRCode (ascii ''https://bridge.example/#data={"t":"Hello"}'') True \<and>
   payload_of_hash stub_platform (ascii ''#data={"t":"Hello"}'') =
     Some (JObj [(ascii ''t'', JStr (ascii ''Hello''))])\<close>
proof -
  let ?href = "ascii ''https://bridge.example/#old''"
  have a1: "i big_note = Some [replicate 2200 0x41]" by (simp add: big_note_def)
  have a2: "[replicate 2200 (0x41::jschar)] \<noteq> []" by simp
  have a3: "2200 \<le> length (dataUrl stub_platform ?href big_note)"
    by (simp add: dataUrl_def) (simp add: stub_platform_def stub_stringify_big)
  have a4: "length (dataUrl stub_platform ?href \<lparr>t = t big_note, i = None\<rparr>) < 2200"
    by (simp add: dataUrl_big_text) (simp add: ascii_def)
  have a5: "round_trips stub_platform (toJson \<lparr>t = t big_note, i = None\<rparr>)"
    using stub_round_trips_text by (simp add: big_note_def)
  note T = images_skipped_when_text_fits [OF a1 a2 a3 a4 a5, of fresh_app]
  have u: "syncUrl (sync_split stub_platform ?href big_note) =
      dataUrl stub_platform ?href \<lparr>t = t big_note, i = None\<rparr>"
    by (simp add: T [THEN conjunct1])
  have lh: \<open>location_hash (dataUrl stub_platform ?href \<lparr>t = t big_note, i = None\<rparr>) =
      ascii ''#data={"t":"Hello"}''\<close>
    by (simp add: dataUrl_big_text) (simp add: location_hash_def ascii_def)
  have tb: "t big_note = ascii ''Hello''" by (simp add: big_note_def)
  note q = T [THEN conjunct2, THEN conjunct1, unfolded dataUrl_big_text]
  have p: \<open>payload_of_hash stub_platform (ascii ''#data={"t":"Hello"}'') =
     Some (JObj [(ascii ''t'', JStr (ascii ''Hello''))])\<close>
    using T [THEN conjunct2, THEN conjunct2, THEN conjunct1] by (simp only: u tb lh [unfolded tb])
  show ?thesis by (intro conjI a1 a3 a4 a5 q p)
qed

section \<open>The ceiling\<close>

text \<open>
  C3. The modal never shows a URL at or over the ceiling. For the modal of
  src/components/QRCodeModal.tsx (ceiling 2200) and the one of src/unnamed/part\_001
  (ceiling 2300): either the result is too long, its URL is the empty string and the
  panel is rendered in place of the code, or the URL handed to the code is strictly
  shorter than the ceiling. Too long means: the full URL reaches the ceiling and there
  is no image to drop or the text-only URL reaches it too (for the HTML payload: the
  full URL reaches it).
\<close>

theorem url_under_ceiling_or_rejected:
  "(let r = sync_split pf href d in
      (if isTooLong r
       then syncUrl r = [] \<and> QRCodeModal pf True href d = TooLargePanel
       else length (syncUrl r) < 2200 \<and>
            QRCodeModal pf True href d = QRCode (syncUrl r) (hasImagesError r)) \<and>
      isTooLong r =
        (2200 \<le> length (dataUrl pf href d) \<and>
         ((case i d of None \<Rightarrow> True | Some imgs \<Rightarrow> imgs = []) \<or>
          2200 \<le> length (dataUrl pf href \<lparr>t = t d, i = None\<rparr>)))) \<and>
   (let r = sync_html pf href d in
      (if isTooLong r
       then syncUrl r = [] \<and> QRCodeModal_html pf True href d = TooLargePanel
       else length (syncUrl r) < 2300 \<and>
            QRCodeModal_html pf True href d = QRCode (syncUrl r) False) \<and>
      isTooLong r = (2300 \<le> length (dataUrl pf href d))) \<and>
   QRCodeModal pf False href d = NotRendered \<and>
   QRCodeModal_html pf False href d = NotRendered"
proof -
  have 1: "let r = sync_split pf href d in
      (if isTooLong r
       then syncUrl r = [] \<and> QRCodeModal pf True href d = TooLargePanel
       else length (syncUrl r) < 2200 \<and>
            QRCodeModal pf True href d = QRCode (syncUrl r) (hasImagesError r)) \<and>
      isTooLong r =
        (2200 \<le> length (dataUrl pf href d) \<and>
         ((case i d of None \<Rightarrow> True | Some imgs \<Rightarrow> imgs = []) \<or>
          2200 \<le> length (dataUrl pf href \<lparr>t = t d, i = None\<rparr>)))"
    by (cases "i d") (auto simp: sync_split_def QRCodeModal_def Let_def)
  have 2: "let r = sync_html pf href d in
      (if isTooLong r
       then syncUrl r = [] \<and> QRCodeModal_html pf True href d = TooLargePanel
       else length (syncUrl r) < 2300 \<and>
            QRCodeModal_html pf True href d = QRCode (syncUrl r) False) \<and>
      isTooLong r = (2300 \<le> length (dataUrl pf href d))"
    by (auto simp: sync_html_def QRCodeModal_html_def Let_def)
  have 3: "QRCodeModal pf False href d = NotRendered" by (simp add: QRCodeModal_def)
  have 4: "QRCodeModal_html pf False href d = NotRendered" by (simp add: QRCodeModal_html_def)
  from 1 2 3 4 show ?thesis by (intro conjI)
qed


theorem url_under_ceiling_or_rejected_witness:
  "\<not> isTooLong (sync_split stub_platform (ascii ''https://bridge.example/#old'') hello_note) \<and>
   length (syncUrl (sync_split stub_platform (ascii ''https://bridge.example/#old'') hello_note)) < 2200 \<and>
   QRCodeModal stub_platform True (ascii ''https://bridge.example/#old'') hello_note =
     QRCode (syncUrl (sync_split stub_platform (ascii ''https://bridge.example/#old'') hello_note)) False"
proof -
  let ?href = "ascii ''https://bridge.example/#old''"
  have l: "length (dataUrl stub_platform ?href hello_note) < 2200"
    by (simp add: dataUrl_hello) (simp add: ascii_def)
  have n: "\<not> isTooLong (sync_split stub_platform ?href hello_note)"
    and e: "\<not> hasImagesError (sync_split stub_platform ?href hello_note)"
    using l by (simp_all add: sync_split_def Let_def)
  show ?thesis
    using url_under_ceiling_or_rejected [of stub_platform ?href hello_note] n e
    by (simp add: Let_def)
qed

lemma baseUrl_without_hash: "HASH \<notin> set href \<Longrightarrow> baseUrl href = href"
  by (simp add: baseUrl_def split_str_single)

lemma length_dataUrl:
  "length (dataUrl pf href d) =
     length (baseUrl href) + 6 + length (compressToEncodedURIComponent pf (JSON_stringify pf (toJson d)))"
  by (simp add: dataUrl_def ascii_def)

lemma sync_split_long_base:
  assumes "2200 \<le> length (baseUrl href)"
  shows "sync_split pf href d = \<lparr>syncUrl = [], isTooLong = True, hasImagesError = False\<rparr>"
  using assms by (simp add: sync_split_def Let_def length_dataUrl)

text \<open>
  C4, as the code has it. The empty note \<open>{t: '', i: []}\<close> is too large exactly when
  the page's own address is so long that address, tag and compressed empty payload
  reach 2200; otherwise the result is the full URL, under the ceiling and never the
  degraded one. The plain modal of src/unnamed/part\_000 encodes the empty text to
  address plus \<open>#note=\<close> and calls it too long when that exceeds 2000.
\<close>

theorem empty_note_fits_short_base:
  "(let e = \<lparr>t = [], i = Some []\<rparr>; r = sync_split pf href e in
      isTooLong r =
        (2200 \<le> length (baseUrl href) + 6 +
                 length (compressToEncodedURIComponent pf (JSON_stringify pf (toJson e)))) \<and>
      \<not> hasImagesError r \<and>
      (if isTooLong r then syncUrl r = []
       else syncUrl r = dataUrl pf href e \<and> length (syncUrl r) < 2200)) \<and>
   (encodeURIComponent pf [] = Some [] \<longrightarrow>
      sync_plain pf href [] =
        Some \<lparr>syncUrl = baseUrl href @ ascii ''#note='',
              isTooLong = (2000 < length (baseUrl href) + 6)\<rparr>)"
proof -
  have 1: "let e = \<lparr>t = [], i = Some []\<rparr>; r = sync_split pf href e in
      isTooLong r =
        (2200 \<le> length (baseUrl href) + 6 +
                 length (compressToEncodedURIComponent pf (JSON_stringify pf (toJson e)))) \<and>
      \<not> hasImagesError r \<and>
      (if isTooLong r then syncUrl r = []
       else syncUrl r = dataUrl pf href e \<and> length (syncUrl r) < 2200)"
    by (auto simp: sync_split_def Let_def length_dataUrl)
  have 2: "encodeURIComponent pf [] = Some [] \<longrightarrow>
      sync_plain pf href [] =
        Some \<lparr>syncUrl = baseUrl href @ ascii ''#note='',
              isTooLong = (2000 < length (baseUrl href) + 6)\<rparr>"
    by (simp add: sync_plain_def getSyncUrl_def ascii_def)
  from 1 2 show ?thesis by (rule conjI)
qed

theorem empty_note_fits_short_base_witness:
  \<open>encodeURIComponent stub_platform [] = Some [] \<and>
   sync_split stub_platform (ascii ''https://bridge.example/#old'') \<lparr>t = [], i = Some []\<rparr> =
     \<lparr>syncUrl = ascii ''https://bridge.example/#data={"t":"","i":[]}'',
      isTooLong = False, hasImagesError = False\<rparr> \<and>
   sync_plain stub_platform (ascii ''https://bridge.example/#old'') [] =
     Some \<lparr>syncUrl = ascii ''https://bridge.example/#note='', isTooLong = False\<rparr>\<close>
proof -
  let ?href = "ascii ''https://bridge.example/#old''"
  let ?e = "\<lparr>t = [], i = Some []\<rparr> :: SyncData"
  have h: "encodeURIComponent stub_platform [] = Some []" by (simp add: stub_platform_def)
  note T = empty_note_fits_short_base [of stub_platform ?href]
  have d: \<open>dataUrl stub_platform ?href ?e = ascii ''https://bridge.example/#data={"t":"","i":[]}''\<close>
    by (simp add: dataUrl_def baseUrl_example) (simp add: stub_platform_def toJson_def ascii_def)
  have c: "compressToEncodedURIComponent stub_platform (JSON_stringify stub_platform (toJson ?e)) =
      ascii ''{\"t\":\"\",\"i\":[]}''"
    by (simp add: stub_platform_def toJson_def ascii_def)
  have n: "\<not> isTooLong (sync_split stub_platform ?href ?e)"
    using T [THEN conjunct1] by (simp add: Let_def c baseUrl_example) (simp add: ascii_def)
  have "sync_split stub_platform ?href ?e =
      \<lparr>syncUrl = dataUrl stub_platform ?href ?e, isTooLong = False, hasImagesError = False\<rparr>"
    using T [THEN conjunct1] n by (simp add: Let_def)
  then have a: \<open>sync_split stub_platform ?href ?e =
      \<lparr>syncUrl = ascii ''https://bridge.example/#data={"t":"","i":[]}'',
       isTooLong = False, hasImagesError = False\<rparr>\<close>
    by (simp only: d)
  have b: "sync_plain stub_platform ?href [] =
     Some \<lparr>syncUrl = ascii ''https://bridge.example/#note='', isTooLong = False\<rparr>"
    using T [THEN conjunct2] h by (simp add: baseUrl_example) (simp add: ascii_def)
  show ?thesis by (intro conjI h a b)
qed

text \<open>
  The claim for every address fails: at an address with a long query the empty note is
  too large in both modals.
\<close>

theorem empty_note_long_base_counterexample:
  "sync_split stub_platform long_href \<lparr>t = [], i = Some []\<rparr> =
     \<lparr>syncUrl = [], isTooLong = True, hasImagesError = False\<rparr> \<and>
   QRCodeModal stub_platform True long_href \<lparr>t = [], i = Some []\<rparr> = TooLargePanel \<and>
   sync_plain stub_platform long_href [] =
     Some \<lparr>syncUrl = long_href @ ascii ''#note='', isTooLong = True\<rparr>"
proof -
  have b: "baseUrl long_href = long_href"
    by (rule baseUrl_without_hash) (simp add: long_href_def ascii_def)
  have l: "length long_href = 2226" by (simp add: long_href_def ascii_def)
  have 1: "sync_split stub_platform long_href \<lparr>t = [], i = Some []\<rparr> =
     \<lparr>syncUrl = [], isTooLong = True, hasImagesError = False\<rparr>"
    by (rule sync_split_long_base) (simp add: b l)
  have 2: "QRCodeModal stub_platform True long_href \<lparr>t = [], i = Some []\<rparr> = TooLargePanel"
    by (simp add: QRCodeModal_def 1)
  have 3: "sync_plain stub_platform long_href [] =
     Some \<lparr>syncUrl = long_href @ ascii ''#note='', isTooLong = True\<rparr>"
    by (simp add: sync_plain_def getSyncUrl_def stub_platform_def b l ascii_def)
  show ?thesis by (intro conjI 1 2 3)
qed

section \<open>Loading\<close>

lemma decode_fails_iff:
  "decode_fails pf h \<longleftrightarrow> Option.bind (payload_of_hash pf h) (html_of_payload pf) = None"
  by (auto simp: decode_fails_def payload_of_hash_def split: option.splits)

lemma payload_of_hash_other_tag:
  "\<not> startsWith h (ascii ''#data='') \<Longrightarrow> payload_of_hash pf h = None"
  by (simp add: payload_of_hash_def)

lemma note_tag_is_not_data_tag:
  "startsWith h (ascii ''#note='') \<Longrightarrow> \<not> startsWith h (ascii ''#data='')"
  by (auto simp: startsWith_def ascii_def)

lemma data_tag_is_not_note_tag:
  "startsWith h (ascii ''#data='') \<Longrightarrow> \<not> startsWith h (ascii ''#note='')"
  by (auto simp: startsWith_def ascii_def)

lemma from_storage_hash: "from_storage pf (st\<lparr>hash := h\<rparr>) = (from_storage pf st)\<lparr>hash := h\<rparr>"
  by (simp add: from_storage_def install_def Let_def)

lemma saved_html_hash: "saved_html pf (st\<lparr>hash := h\<rparr>) = (saved_html pf st)\<lparr>hash := h\<rparr>"
  by (simp add: saved_html_def install_def split: option.splits)

lemma first_visit_hash: "first_visit (st\<lparr>hash := h\<rparr>) = (first_visit st)\<lparr>hash := h\<rparr>"
  by (simp add: first_visit_def)

lemma hash_from_storage: "hash (from_storage pf st) = hash st"
  by (simp add: from_storage_def install_def Let_def)

lemma hash_first_visit: "hash (first_visit st) = hash st"
  by (simp add: first_visit_def)

lemma loadEffect_failed:
  assumes "decode_fails pf (hash st)"
  shows "loadEffect pf st = (loadEffect pf (st\<lparr>hash := []\<rparr>))\<lparr>hash := hash st\<rparr>"
proof -
  have 1: "initContent pf st = from_storage pf st"
    using assms by (simp add: decode_fails_iff initContent_no_payload)
  have "payload_of_hash pf [] = None" by (simp add: payload_of_hash_def startsWith_def ascii_def)
  then have 2: "initContent pf (st\<lparr>hash := []\<rparr>) = from_storage pf (st\<lparr>hash := []\<rparr>)"
    by (simp add: initContent_def)
  have "(first_visit (from_storage pf st))\<lparr>hash := hash (first_visit (from_storage pf st))\<rparr> =
      first_visit (from_storage pf st)" by simp
  then have 3: "(first_visit (from_storage pf st))\<lparr>hash := hash st\<rparr> = first_visit (from_storage pf st)"
    by (simp only: hash_first_visit hash_from_storage)
  show ?thesis by (simp add: loadEffect_def 1 2 from_storage_hash first_visit_hash 3)
qed

lemma unified_slot_kept:
  "localStorage (from_storage pf st) (ascii ''bridgeNoteHtml'') = localStorage st (ascii ''bridgeNoteHtml'')"
  by (simp add: from_storage_def install_def Let_def ascii_def)

lemma first_visit_other_slot:
  "k \<noteq> ascii ''hasSeenInfo_offline'' \<Longrightarrow> localStorage (first_visit st) k = localStorage st k"
  by (simp add: first_visit_def)

lemma loadEffect_plain_failed:
  assumes "\<not> startsWith (hash ps) (ascii ''#note='') \<or> decodeURIComponent pf (drop 6 (hash ps)) = None"
  shows "loadEffect_plain pf ps = (loadEffect_plain pf (ps\<lparr>hash := []\<rparr>))\<lparr>hash := hash ps\<rparr>"
proof -
  have e: "\<not> startsWith [] (ascii ''#note='')" by (simp add: startsWith_def ascii_def)
  have a: "(if startsWith (hash ps) (ascii ''#note='')
            then decodeURIComponent pf (drop 6 (hash ps)) else None) = None"
    using assms by auto
  show ?thesis
    unfolding loadEffect_plain_def a
    by (simp add: e first_visit_def split: option.splits)
qed

lemma html_of_payload_needs_text:
  assumes "\<And>props s. v = JObj props \<Longrightarrow> map_of props (ascii ''t'') \<noteq> Some (JStr s)"
  shows "html_of_payload pf v = None"
proof (cases v)
  case (JObj props)
  with assms have "\<And>s. map_of props (ascii ''t'') \<noteq> Some (JStr s)" by blast
  then show ?thesis
    unfolding html_of_payload_def JObj
    by (cases "map_of props (ascii ''t'')") (auto split: json.splits)
qed (simp_all add: html_of_payload_def)


text \<open>
  C5, as the code has it. When the decode of src/unnamed/part\_003 fails on the page's
  fragment (\<open>decode_fails\<close>), no exception leaves the mount effect and the effect does
  what it does without a fragment, the fragment staying in the address; the unified slot
  is read and left as it was. The same holds for the plain editor of src/App.tsx when
  the tag is not \<open>#note=\<close> or \<open>decodeURIComponent\<close> throws, with its slot. A parsed
  value that is no object with a string \<open>t\<close> makes the decode fail. (A payload with a
  string \<open>t\<close> is accepted whatever its \<open>i\<close> is; the legacy slots are migrated by
  the fallback as on any load.)
\<close>

theorem failed_decode_falls_back:
  "(decode_fails pf (hash st) \<longrightarrow>
      loadEffect pf st = (loadEffect pf (st\<lparr>hash := []\<rparr>))\<lparr>hash := hash st\<rparr> \<and>
      localStorage (loadEffect pf st) (ascii ''bridgeNoteHtml'') =
        localStorage st (ascii ''bridgeNoteHtml'')) \<and>
   (\<not> startsWith (hash ps) (ascii ''#note='') \<or>
    decodeURIComponent pf (drop 6 (hash ps)) = None \<longrightarrow>
      loadEffect_plain pf ps = (loadEffect_plain pf (ps\<lparr>hash := []\<rparr>))\<lparr>hash := hash ps\<rparr> \<and>
      localStorage (loadEffect_plain pf ps) (ascii ''bridgeNoteContent'') =
        localStorage ps (ascii ''bridgeNoteContent'')) \<and>
   ((\<forall>props s. v = JObj props \<longrightarrow> map_of props (ascii ''t'') \<noteq> Some (JStr s)) \<longrightarrow>
      html_of_payload pf v = None)"
proof (intro conjI impI)
  assume f: "decode_fails pf (hash st)"
  then show "loadEffect pf st = (loadEffect pf (st\<lparr>hash := []\<rparr>))\<lparr>hash := hash st\<rparr>"
    by (rule loadEffect_failed)
  have "initContent pf st = from_storage pf st"
    using f by (simp add: decode_fails_iff initContent_no_payload)
  moreover have "ascii ''bridgeNoteHtml'' \<noteq> ascii ''hasSeenInfo_offline''"
    by (simp add: ascii_def)
  ultimately show "localStorage (loadEffect pf st) (ascii ''bridgeNoteHtml'') =
      localStorage st (ascii ''bridgeNoteHtml'')"
    by (simp add: loadEffect_def first_visit_other_slot unified_slot_kept)
next
  assume f: "\<not> startsWith (hash ps) (ascii ''#note='') \<or>
    decodeURIComponent pf (drop 6 (hash ps)) = None"
  then show "loadEffect_plain pf ps = (loadEffect_plain pf (ps\<lparr>hash := []\<rparr>))\<lparr>hash := hash ps\<rparr>"
    by (rule loadEffect_plain_failed)
  have a: "(if startsWith (hash ps) (ascii ''#note='')
            then decodeURIComponent pf (drop 6 (hash ps)) else None) = None"
    using f by auto
  show "localStorage (loadEffect_plain pf ps) (ascii ''bridgeNoteContent'') =
      localStorage ps (ascii ''bridgeNoteContent'')"
    unfolding loadEffect_plain_def a
    by (simp add: first_visit_def ascii_def split: option.splits)
next
  assume "\<forall>props s. v = JObj props \<longrightarrow> map_of props (ascii ''t'') \<noteq> Some (JStr s)"
  then show "html_of_payload pf v = None"
    by (intro html_of_payload_needs_text) blast
qed

theorem failed_decode_falls_back_witness:
  "decode_fails stub_platform (ascii ''#data=%7Bcorrupt'') \<and>
   editorHtml (loadEffect stub_platform (saved_app\<lparr>hash := ascii ''#data=%7Bcorrupt''\<rparr>)) =
     ascii ''<p>saved</p>'' \<and>
   localStorage (loadEffect stub_platform (saved_app\<lparr>hash := ascii ''#data=%7Bcorrupt''\<rparr>))
       (ascii ''bridgeNoteHtml'') = Some (ascii ''<p>saved</p>'') \<and>
   decodeURIComponent stub_platform (drop 6 (ascii ''#note=%E0%A4%A'')) = None \<and>
   content (loadEffect_plain stub_platform
       (fresh_plain\<lparr>hash := ascii ''#note=%E0%A4%A'',
                     localStorage := [ascii ''bridgeNoteContent'' \<mapsto> ascii ''saved'']\<rparr>)) =
     ascii ''saved'' \<and>
   html_of_payload stub_platform (JArr []) = None"
proof -
  let ?h = "ascii ''#data=%7Bcorrupt''"
  let ?st = "saved_app\<lparr>hash := ?h\<rparr>"
  let ?ps = "fresh_plain\<lparr>hash := ascii ''#note=%E0%A4%A'',
                     localStorage := [ascii ''bridgeNoteContent'' \<mapsto> ascii ''saved'']\<rparr>"
  have f: "decode_fails stub_platform ?h"
    by (simp add: decode_fails_def stub_platform_def stub_parse_def stub_values_def
        toJson_def ascii_def startsWith_def)
  then have f': "decode_fails stub_platform (hash ?st)" by simp
  have g: "decodeURIComponent stub_platform (drop 6 (ascii ''#note=%E0%A4%A'')) = None"
    by (simp add: stub_platform_def ascii_def)
  then have g': "\<not> startsWith (hash ?ps) (ascii ''#note='') \<or>
      decodeURIComponent stub_platform (drop 6 (hash ?ps)) = None" by simp
  note T = failed_decode_falls_back [of stub_platform ?st ?ps "JArr []"]
  have n: "payload_of_hash stub_platform [] = None"
    by (simp add: payload_of_hash_def startsWith_def ascii_def)
  have e: "editorHtml (loadEffect stub_platform (saved_app\<lparr>hash := []\<rparr>)) = ascii ''<p>saved</p>''"
    by (simp add: loadEffect_def initContent_def n from_storage_def install_def saved_app_def
        fresh_app_def hash_first_visit first_visit_def Let_def)
  have 1: "editorHtml (loadEffect stub_platform ?st) = ascii ''<p>saved</p>''"
    using T [THEN conjunct1, rule_format, OF f', THEN conjunct1] e by simp
  have 2: "localStorage (loadEffect stub_platform ?st) (ascii ''bridgeNoteHtml'') =
      Some (ascii ''<p>saved</p>'')"
    using T [THEN conjunct1, rule_format, OF f', THEN conjunct2]
    by (simp add: saved_app_def fresh_app_def)
  have p: "content (loadEffect_plain stub_platform (?ps\<lparr>hash := []\<rparr>)) = ascii ''saved''"
    by (simp add: loadEffect_plain_def startsWith_def fresh_plain_def first_visit_def ascii_def)
  have "content (loadEffect_plain stub_platform ?ps) =
      content ((loadEffect_plain stub_platform (?ps\<lparr>hash := []\<rparr>))\<lparr>hash := hash ?ps\<rparr>)"
    by (simp only: T [THEN conjunct2, THEN conjunct1, rule_format, OF g', THEN conjunct1, symmetric])
  also have "\<dots> = content (loadEffect_plain stub_platform (?ps\<lparr>hash := []\<rparr>))" by simp
  finally have 3: "content (loadEffect_plain stub_platform ?ps) = ascii ''saved''"
    by (simp only: p)
  have 4: "html_of_payload stub_platform (JArr []) = None"
    using T [THEN conjunct2, THEN conjunct2] by simp
  show ?thesis by (intro conjI f 1 2 g 3 4)
qed

text \<open>
  A payload whose \<open>i\<close> is \<open>true\<close> is not of the form \<open>{t, i?: string[]}\<close>, yet the
  loader produces a note from it and does not fall back to the stored one.
\<close>

theorem mistyped_payload_accepted_counterexample:
  \<open>payload_of_hash stub_platform (ascii ''#data={"t":"x","i":true}'') =
     Some (JObj [(ascii ''t'', JStr (ascii ''x'')), (ascii ''i'', JBool True)]) \<and>
   editorHtml (loadEffect stub_platform (saved_app\<lparr>hash := ascii ''#data={"t":"x","i":true}''\<rparr>)) =
     ascii ''<div>x</div>'' \<and>
   statusMessage (loadEffect stub_platform (saved_app\<lparr>hash := ascii ''#data={"t":"x","i":true}''\<rparr>)) =
     ascii ''Synced via QR!''\<close>
proof -
  have p: \<open>payload_of_hash stub_platform (ascii ''#data={"t":"x","i":true}'') =
     Some (JObj [(ascii ''t'', JStr (ascii ''x'')), (ascii ''i'', JBool True)])\<close>
    by (simp add: payload_of_hash_def stub_platform_def stub_parse_def stub_values_def
        toJson_def ascii_def startsWith_def)
  have h: "html_of_payload stub_platform
      (JObj [(ascii ''t'', JStr (ascii ''x'')), (ascii ''i'', JBool True)]) = Some (ascii ''<div>x</div>'')"
    by (simp add: html_of_payload_def replace_newlines_def ascii_def)
  have i: \<open>initContent stub_platform (saved_app\<lparr>hash := ascii ''#data={"t":"x","i":true}''\<rparr>) =
      (install stub_platform (ascii ''<div>x</div>'') (saved_app\<lparr>hash := ascii ''#data={"t":"x","i":true}''\<rparr>))
        \<lparr>statusMessage := ascii ''Synced via QR!'', hash := []\<rparr>\<close>
    by (rule initContent_payload [OF _ h]) (simp add: p)
  show ?thesis
    by (intro conjI p) (simp_all add: loadEffect_def i first_visit_def install_def)
qed





lemma initContent_html_payload:
  assumes "payload_of_hash pf (hash st) = Some (toJson d)"
  shows "initContent_html pf st =
     Loaded ((install pf (t d) st)\<lparr>statusMessage := ascii ''Synced via QR!'', hash := []\<rparr>)"
  using assms by (simp add: initContent_html_def toJson_def)

lemma initContent_html_other_tag:
  assumes "\<not> startsWith (hash st) (ascii ''#data='')"
  shows "initContent_html pf st = Loaded (saved_html pf st)"
  using assms by (simp add: initContent_html_def payload_of_hash_other_tag)

text \<open>
  C9, as the code has it. Every version of the load path decodes one fragment format. The
  plain editor of src/App.tsx imports a \<open>#note=\<close> fragment that percent-decodes and
  treats every other fragment as absent; the rich editors of src/unnamed/part\_003 and
  src/unnamed/part\_004 rebuild a note from a \<open>#data=\<close> fragment whose payload is of
  the form \<open>{t, i?}\<close> (the first from text and images, the second from \<open>t\<close> alone)
  and treat every other fragment as absent. The two tags exclude each other, so no
  version reads both formats.
\<close>

theorem each_version_decodes_its_own_tag:
  "(startsWith h (ascii ''#note='') \<and> decodeURIComponent pf (drop 6 h) = Some txt \<longrightarrow>
      loadEffect_plain pf (ps\<lparr>hash := h\<rparr>) =
        ps\<lparr>content := txt, statusMessage := ascii ''Note imported from QR Code!'', hash := []\<rparr>) \<and>
   (\<not> startsWith h (ascii ''#note='') \<longrightarrow>
      loadEffect_plain pf (ps\<lparr>hash := h\<rparr>) = (loadEffect_plain pf (ps\<lparr>hash := []\<rparr>))\<lparr>hash := h\<rparr>) \<and>
   (payload_of_hash pf h = Some (toJson d) \<longrightarrow>
      initContent pf (st\<lparr>hash := h\<rparr>) =
        (install pf (payload_html d) st)\<lparr>statusMessage := ascii ''Synced via QR!'', hash := []\<rparr> \<and>
      initContent_html pf (st\<lparr>hash := h\<rparr>) =
        Loaded ((install pf (t d) st)\<lparr>statusMessage := ascii ''Synced via QR!'', hash := []\<rparr>)) \<and>
   (\<not> startsWith h (ascii ''#data='') \<longrightarrow>
      initContent pf (st\<lparr>hash := h\<rparr>) = (from_storage pf st)\<lparr>hash := h\<rparr> \<and>
      initContent_html pf (st\<lparr>hash := h\<rparr>) = Loaded ((saved_html pf st)\<lparr>hash := h\<rparr>)) \<and>
   (startsWith h (ascii ''#note='') \<longrightarrow> \<not> startsWith h (ascii ''#data='')) \<and>
   (startsWith h (ascii ''#data='') \<longrightarrow> \<not> startsWith h (ascii ''#note=''))"
proof (intro conjI impI)
  assume a: "startsWith h (ascii ''#note='') \<and> decodeURIComponent pf (drop 6 h) = Some txt"
  then show "loadEffect_plain pf (ps\<lparr>hash := h\<rparr>) =
        ps\<lparr>content := txt, statusMessage := ascii ''Note imported from QR Code!'', hash := []\<rparr>"
    by (simp add: loadEffect_plain_def)
next
  assume "\<not> startsWith h (ascii ''#note='')"
  then have "\<not> startsWith (hash (ps\<lparr>hash := h\<rparr>)) (ascii ''#note='') \<or>
      decodeURIComponent pf (drop 6 (hash (ps\<lparr>hash := h\<rparr>))) = None" by simp
  from loadEffect_plain_failed [OF this]
  show "loadEffect_plain pf (ps\<lparr>hash := h\<rparr>) = (loadEffect_plain pf (ps\<lparr>hash := []\<rparr>))\<lparr>hash := h\<rparr>"
    by simp
next
  assume p: "payload_of_hash pf h = Some (toJson d)"
  have "initContent pf (st\<lparr>hash := h\<rparr>) =
      (install pf (payload_html d) (st\<lparr>hash := h\<rparr>))\<lparr>statusMessage := ascii ''Synced via QR!'', hash := []\<rparr>"
    by (rule initContent_payload [where v = "toJson d"]) (simp_all add: p html_of_payload_toJson)
  then show "initContent pf (st\<lparr>hash := h\<rparr>) =
        (install pf (payload_html d) st)\<lparr>statusMessage := ascii ''Synced via QR!'', hash := []\<rparr>"
    by (simp add: install_def)
  have "initContent_html pf (st\<lparr>hash := h\<rparr>) =
      Loaded ((install pf (t d) (st\<lparr>hash := h\<rparr>))\<lparr>statusMessage := ascii ''Synced via QR!'', hash := []\<rparr>)"
    by (rule initContent_html_payload) (simp add: p)
  then show "initContent_html pf (st\<lparr>hash := h\<rparr>) =
        Loaded ((install pf (t d) st)\<lparr>statusMessage := ascii ''Synced via QR!'', hash := []\<rparr>)"
    by (simp add: install_def)
next
  assume n: "\<not> startsWith h (ascii ''#data='')"
  then have "payload_of_hash pf h = None" by (rule payload_of_hash_other_tag)
  then show "initContent pf (st\<lparr>hash := h\<rparr>) = (from_storage pf st)\<lparr>hash := h\<rparr>"
    by (simp add: initContent_def from_storage_hash)
  show "initContent_html pf (st\<lparr>hash := h\<rparr>) = Loaded ((saved_html pf st)\<lparr>hash := h\<rparr>)"
    using n by (simp add: initContent_html_other_tag saved_html_hash)
next
  assume "startsWith h (ascii ''#note='')"
  then show "\<not> startsWith h (ascii ''#data='')" by (rule note_tag_is_not_data_tag)
next
  assume "startsWith h (ascii ''#data='')"
  then show "\<not> startsWith h (ascii ''#note='')" by (rule data_tag_is_not_note_tag)
qed


theorem each_version_decodes_its_own_tag_witness:
  \<open>startsWith (ascii ''#note=Hello'') (ascii ''#note='') \<and>
   decodeURIComponent stub_platform (drop 6 (ascii ''#note=Hello'')) = Some (ascii ''Hello'') \<and>
   content (loadEffect_plain stub_platform (fresh_plain\<lparr>hash := ascii ''#note=Hello''\<rparr>)) =
     ascii ''Hello'' \<and>
   payload_of_hash stub_platform (ascii ''#data={"t":"Hello","i":["data:image/png;base64,AAAA"]}'') =
     Some (toJson hello_note) \<and>
   editorHtml (initContent stub_platform
       (fresh_app\<lparr>hash := ascii ''#data={"t":"Hello","i":["data:image/png;base64,AAAA"]}''\<rparr>)) =
     payload_html hello_note \<and>
   initContent_html stub_platform
       (fresh_app\<lparr>hash := ascii ''#data={"t":"Hello","i":["data:image/png;base64,AAAA"]}''\<rparr>) =
     Loaded ((install stub_platform (ascii ''Hello'') fresh_app)
               \<lparr>statusMessage := ascii ''Synced via QR!'', hash := []\<rparr>)\<close>
proof -
  let ?n = "ascii ''#note=Hello''"
  let ?d = \<open>ascii ''#data={"t":"Hello","i":["data:image/png;base64,AAAA"]}''\<close>
  have a1: "startsWith ?n (ascii ''#note='')" by (simp add: startsWith_def ascii_def)
  have a2: "decodeURIComponent stub_platform (drop 6 ?n) = Some (ascii ''Hello'')"
    by (simp add: stub_platform_def ascii_def)
  have a3: "payload_of_hash stub_platform ?d = Some (toJson hello_note)"
    by (simp add: payload_of_hash_def stub_platform_def stub_parse_def stub_values_def
        hello_note_def toJson_def ascii_def startsWith_def)
  note N = each_version_decodes_its_own_tag
             [of ?n stub_platform "ascii ''Hello''" fresh_plain hello_note fresh_app]
  note D = each_version_decodes_its_own_tag
             [of ?d stub_platform "[]" fresh_plain hello_note fresh_app]
  have 1: "content (loadEffect_plain stub_platform (fresh_plain\<lparr>hash := ?n\<rparr>)) = ascii ''Hello''"
    using N [THEN conjunct1] a1 a2 by simp
  note D3 = D [THEN conjunct2, THEN conjunct2, THEN conjunct1, rule_format, OF a3]
  have 2: "editorHtml (initContent stub_platform (fresh_app\<lparr>hash := ?d\<rparr>)) = payload_html hello_note"
    unfolding D3 [THEN conjunct1] by (simp add: install_def)
  have 3: "initContent_html stub_platform (fresh_app\<lparr>hash := ?d\<rparr>) =
     Loaded ((install stub_platform (ascii ''Hello'') fresh_app)
               \<lparr>statusMessage := ascii ''Synced via QR!'', hash := []\<rparr>)"
    unfolding D3 [THEN conjunct2] by (simp add: hello_note_def)
  show ?thesis by (intro conjI a1 a2 1 a3 2 3)
qed

text \<open>
  The rich editors ignore a \<open>#note=\<close> fragment and the plain editor ignores a
  \<open>#data=\<close> fragment: each loads the stored note.
\<close>

theorem other_tag_ignored_counterexample:
  \<open>editorHtml (loadEffect stub_platform (saved_app\<lparr>hash := ascii ''#note=Hello''\<rparr>)) =
     ascii ''<p>saved</p>'' \<and>
   (case loadEffect_html stub_platform (saved_app\<lparr>hash := ascii ''#note=Hello''\<rparr>) of
      Loaded s \<Rightarrow> editorHtml s = ascii ''<p>saved</p>''
    | NonString v \<Rightarrow> False) \<and>
   content (loadEffect_plain stub_platform
       (fresh_plain\<lparr>hash := ascii ''#data={"t":"Hello"}'',
                     localStorage := [ascii ''bridgeNoteContent'' \<mapsto> ascii ''saved'']\<rparr>)) =
     ascii ''saved''\<close>
proof -
  have n: "payload_of_hash stub_platform (ascii ''#note=Hello'') = None"
    by (simp add: payload_of_hash_def startsWith_def ascii_def)
  have 1: "editorHtml (loadEffect stub_platform (saved_app\<lparr>hash := ascii ''#note=Hello''\<rparr>)) =
     ascii ''<p>saved</p>''"
    by (simp add: loadEffect_def initContent_def n from_storage_def install_def saved_app_def
        fresh_app_def first_visit_def Let_def)
  have 2: "(case loadEffect_html stub_platform (saved_app\<lparr>hash := ascii ''#note=Hello''\<rparr>) of
      Loaded s \<Rightarrow> editorHtml s = ascii ''<p>saved</p>''
    | NonString v \<Rightarrow> False)"
  proof -
    have "\<not> startsWith (hash (saved_app\<lparr>hash := ascii ''#note=Hello''\<rparr>)) (ascii ''#data='')"
      by (simp add: startsWith_def ascii_def)
    then have "initContent_html stub_platform (saved_app\<lparr>hash := ascii ''#note=Hello''\<rparr>) =
        Loaded (saved_html stub_platform (saved_app\<lparr>hash := ascii ''#note=Hello''\<rparr>))"
      by (rule initContent_html_other_tag)
    then show ?thesis
      by (simp add: loadEffect_html_def saved_html_def install_def saved_app_def
          fresh_app_def first_visit_def ascii_def)
  qed
  have 3: \<open>content (loadEffect_plain stub_platform
       (fresh_plain\<lparr>hash := ascii ''#data={"t":"Hello"}'',
                     localStorage := [ascii ''bridgeNoteContent'' \<mapsto> ascii ''saved'']\<rparr>)) =
     ascii ''saved''\<close>
    by (simp add: loadEffect_plain_def startsWith_def fresh_plain_def first_visit_def ascii_def)
  show ?thesis by (intro conjI 1 2 3)
qed

section \<open>Case conversion without a selection\<close>

lemma handleFormat_rich_no_selection:
  assumes "active_selection (doc st) = None" "ty = UPPERCASE \<or> ty = LOWERCASE"
  shows "handleFormat_rich pf ty st =
     handleInput pf (st\<lparr>doc := (doc st)\<lparr>styleWithCSS := True\<rparr>,
                        statusMessage := ascii ''Select text first''\<rparr>)"
  using assms by (auto simp: handleFormat_rich_def active_selection_def Let_def)

lemma handleFormat_html_no_selection:
  assumes "active_selection (doc st) = None" "ty = UPPERCASE \<or> ty = LOWERCASE"
  shows "handleFormat_html pf ty st =
     st\<lparr>doc := (doc st)\<lparr>styleWithCSS := True, focused := (mounted st \<or> focused (doc st))\<rparr>\<rparr>"
  using assms by (auto simp: handleFormat_html_def active_selection_def Let_def)

text \<open>
  C8, as the code has it. With no selection, or a collapsed one, the upper-case and
  lower-case transforms of both rich editors leave the document as it is. In
  src/unnamed/part\_003 the status line then reads \<open>Select text first\<close> (and
  \<open>handleInput\<close> saves the unchanged markup); in src/unnamed/part\_004 the branch has
  no \<open>else\<close>: the status line keeps what it showed and only the editing mode and the
  focus change.
\<close>

theorem case_change_needs_selection:
  assumes "case selection (doc st) of None \<Rightarrow> True | Some s \<Rightarrow> isCollapsed s"
    and "ty = UPPERCASE \<or> ty = LOWERCASE"
  shows "handleFormat_rich pf ty st =
       handleInput pf (st\<lparr>doc := (doc st)\<lparr>styleWithCSS := True\<rparr>,
                          statusMessage := ascii ''Select text first''\<rparr>) \<and>
     dom (doc (handleFormat_rich pf ty st)) = dom (doc st) \<and>
     statusMessage (handleFormat_rich pf ty st) = ascii ''Select text first'' \<and>
     handleFormat_html pf ty st =
       st\<lparr>doc := (doc st)\<lparr>styleWithCSS := True, focused := (mounted st \<or> focused (doc st))\<rparr>\<rparr> \<and>
     dom (doc (handleFormat_html pf ty st)) = dom (doc st) \<and>
     statusMessage (handleFormat_html pf ty st) = statusMessage st"
proof -
  have a: "active_selection (doc st) = None"
    using assms(1) by (auto simp: active_selection_def split: option.splits)
  note r = handleFormat_rich_no_selection [OF a assms(2), of pf]
  note h = handleFormat_html_no_selection [OF a assms(2), of pf]
  have 1: "dom (doc (handleFormat_rich pf ty st)) = dom (doc st)"
    unfolding r by (simp add: handleInput_def Let_def)
  have 2: "statusMessage (handleFormat_rich pf ty st) = ascii ''Select text first''"
    unfolding r by (simp add: handleInput_def Let_def)
  have 3: "dom (doc (handleFormat_html pf ty st)) = dom (doc st)" unfolding h by simp
  have 4: "statusMessage (handleFormat_html pf ty st) = statusMessage st" unfolding h by simp
  show ?thesis by (intro conjI r 1 2 h 3 4)
qed

theorem case_change_needs_selection_witness:
  "(case selection (doc blocked_app) of None \<Rightarrow> True | Some s \<Rightarrow> isCollapsed s) \<and>
   dom (doc (handleFormat_rich stub_platform UPPERCASE blocked_app)) = dom (doc blocked_app) \<and>
   statusMessage (handleFormat_rich stub_platform UPPERCASE blocked_app) = ascii ''Select text first'' \<and>
   dom (doc (handleFormat_html stub_platform UPPERCASE blocked_app)) = dom (doc blocked_app) \<and>
   statusMessage (handleFormat_html stub_platform UPPERCASE blocked_app) = statusMessage blocked_app"
proof -
  have a: "case selection (doc blocked_app) of None \<Rightarrow> True | Some s \<Rightarrow> isCollapsed s"
    by (simp add: blocked_app_def fresh_app_def fresh_doc_def)
  have b: "UPPERCASE = UPPERCASE \<or> UPPERCASE = LOWERCASE" by simp
  note T = case_change_needs_selection [OF a b, of stub_platform]
  show ?thesis
    by (intro conjI a T [THEN conjunct2, THEN conjunct1]
        T [THEN conjunct2, THEN conjunct2, THEN conjunct1]
        T [THEN conjunct2, THEN conjunct2, THEN conjunct2, THEN conjunct2, THEN conjunct1]
        T [THEN conjunct2, THEN conjunct2, THEN conjunct2, THEN conjunct2, THEN conjunct2])
qed

text \<open>
  In the editor of src/unnamed/part\_004 no notice is shown: with nothing selected the
  status line stays empty.
\<close>

theorem no_notice_in_html_editor_counterexample:
  "selection (doc fresh_app) = None \<and>
   statusMessage (handleFormat_html stub_platform UPPERCASE fresh_app) = [] \<and>
   statusMessage (handleFormat_html stub_platform LOWERCASE fresh_app) = [] \<and>
   ascii ''Select text first'' \<noteq> []"
  by (simp add: handleFormat_html_def active_selection_def fresh_app_def fresh_doc_def Let_def ascii_def)


section \<open>An image that cannot be converted\<close>


























end
